theory Spec2Isabelle
  imports Main "HOL-Library.Char_ord" "HOL-Library.List_Lexorder"
begin

section \<open>Strings and the library functions the client calls\<close>

text \<open>
  A Go string is a sequence of bytes, here a \<^typ>\<open>string\<close>. \<open>len\<close> is \<^const>\<open>length\<close>
  (it counts bytes) and the comparison of two strings is the bytewise lexicographic
  order on \<^typ>\<open>char list\<close>. Go's \<open>int\<close> is modelled as \<^typ>\<open>int\<close>, for values in the
  range of 64 bits: the client compares and prints the integers it is handed. It
  computes with them twice. The timeout is a product, which wraps around and is
  written so; the attempt counter of the retry loop is incremented only below
  \<open>MaxRetries\<close>, so it never leaves the range.
\<close>

definition wrap64 :: "int \<Rightarrow> int" where
  "wrap64 i = (i + 2 ^ 63) mod 2 ^ 64 - 2 ^ 63"

definition HasPrefix :: "string \<Rightarrow> string \<Rightarrow> bool" where
  "HasPrefix s p = (length p \<le> length s \<and> take (length p) s = p)"

definition HasSuffix :: "string \<Rightarrow> string \<Rightarrow> bool" where
  "HasSuffix s p = (length p \<le> length s \<and> drop (length s - length p) s = p)"

fun Contains :: "string \<Rightarrow> string \<Rightarrow> bool" where
  "Contains [] sub = (sub = [])"
| "Contains (c # s) sub = (HasPrefix (c # s) sub \<or> Contains s sub)"

definition digit_char :: "nat \<Rightarrow> char" where
  "digit_char d = ''0123456789'' ! d"

fun digits :: "nat \<Rightarrow> string" where
  "digits n = (if n < 10 then [digit_char n] else digits (n div 10) @ [digit_char (n mod 10)])"

declare digits.simps [simp del]

text \<open>\<open>strconv.Itoa\<close>: the decimal representation, with a minus sign for a negative number.\<close>

definition Itoa :: "int \<Rightarrow> string" where
  "Itoa i = (if i < 0 then CHR ''-'' # digits (nat (- i)) else digits (nat i))"

text \<open>\<open>strconv.FormatBool\<close>.\<close>

definition FormatBool :: "bool \<Rightarrow> string" where
  "FormatBool b = (if b then ''true'' else ''false'')"

text \<open>
  White space as \<open>unicode.IsSpace\<close> defines it, in UTF-8: the six ASCII characters
  tab, line feed, vertical tab, form feed, carriage return and space, then U+0085,
  U+00A0, U+1680, U+2000 to U+200A, U+2028, U+2029, U+202F, U+205F and U+3000. No
  encoding in the list is a prefix of another, each starts with an ASCII byte or a
  UTF-8 lead byte, and a byte that does not start a valid rune is a rune of width one
  for Go; so scanning the bytes for these encodings finds the same white space as
  decoding the runes does.
\<close>

definition space_encodings :: "string list" where
  "space_encodings =
     [[CHR 0x09], [CHR 0x0A], [CHR 0x0B], [CHR 0x0C], [CHR 0x0D], [CHR 0x20],
      [CHR 0xC2, CHR 0x85], [CHR 0xC2, CHR 0xA0],
      [CHR 0xE1, CHR 0x9A, CHR 0x80],
      [CHR 0xE2, CHR 0x80, CHR 0x80], [CHR 0xE2, CHR 0x80, CHR 0x81],
      [CHR 0xE2, CHR 0x80, CHR 0x82], [CHR 0xE2, CHR 0x80, CHR 0x83],
      [CHR 0xE2, CHR 0x80, CHR 0x84], [CHR 0xE2, CHR 0x80, CHR 0x85],
      [CHR 0xE2, CHR 0x80, CHR 0x86], [CHR 0xE2, CHR 0x80, CHR 0x87],
      [CHR 0xE2, CHR 0x80, CHR 0x88], [CHR 0xE2, CHR 0x80, CHR 0x89],
      [CHR 0xE2, CHR 0x80, CHR 0x8A],
      [CHR 0xE2, CHR 0x80, CHR 0xA8], [CHR 0xE2, CHR 0x80, CHR 0xA9],
      [CHR 0xE2, CHR 0x80, CHR 0xAF],
      [CHR 0xE2, CHR 0x81, CHR 0x9F],
      [CHR 0xE3, CHR 0x80, CHR 0x80]]"

text \<open>The width in bytes of the white-space rune a string starts (ends) with, 0 if none.\<close>

definition space_width :: "string \<Rightarrow> nat" where
  "space_width s = (case filter (HasPrefix s) space_encodings of [] \<Rightarrow> 0 | p # _ \<Rightarrow> length p)"

definition space_width_end :: "string \<Rightarrow> nat" where
  "space_width_end s = (case filter (HasSuffix s) space_encodings of [] \<Rightarrow> 0 | p # _ \<Rightarrow> length p)"

text \<open>
  \<open>strings.Fields\<close>: the maximal runs of bytes between white space. \<open>cur\<close> is the
  field being read.
\<close>

function fields_from :: "string \<Rightarrow> string \<Rightarrow> string list" where
  "fields_from [] cur = (if cur = [] then [] else [cur])"
| "fields_from (c # s) cur =
     (if 0 < space_width (c # s)
      then (if cur = [] then [] else [cur]) @ fields_from (drop (space_width (c # s)) (c # s)) []
      else fields_from s (cur @ [c]))"
  by pat_completeness auto
termination
  by (relation "measure (\<lambda>(s, cur). length s)") auto

definition Fields :: "string \<Rightarrow> string list" where
  "Fields s = fields_from s []"

text \<open>\<open>strings.TrimSpace\<close>: drop the white space at both ends.\<close>

function trim_left :: "string \<Rightarrow> string" where
  "trim_left s = (if 0 < space_width s then trim_left (drop (space_width s) s) else s)"
  by pat_completeness auto
termination
proof (relation "measure length")
  show "wf (measure (length :: string \<Rightarrow> nat))" by simp
next
  fix s :: string
  assume "0 < space_width s"
  moreover have "space_width s \<le> length s"
    by (auto simp: space_width_def HasPrefix_def filter_eq_Cons_iff split: list.splits)
  ultimately show "(drop (space_width s) s, s) \<in> measure length" by simp
qed

function trim_right :: "string \<Rightarrow> string" where
  "trim_right s =
     (if 0 < space_width_end s then trim_right (take (length s - space_width_end s) s) else s)"
  by pat_completeness auto
termination
proof (relation "measure length")
  show "wf (measure (length :: string \<Rightarrow> nat))" by simp
next
  fix s :: string
  assume "0 < space_width_end s"
  moreover have "space_width_end s \<le> length s"
    by (auto simp: space_width_end_def HasSuffix_def filter_eq_Cons_iff split: list.splits)
  ultimately show "(take (length s - space_width_end s) s, s) \<in> measure length" by simp
qed

declare trim_left.simps [simp del] trim_right.simps [simp del]

definition TrimSpace :: "string \<Rightarrow> string" where
  "TrimSpace s = trim_right (trim_left s)"

text \<open>
  \<open>strings.Split\<close> with a separator of one byte, the only way the client calls it:
  the pieces between the separators, at least one piece.
\<close>

fun Split :: "string \<Rightarrow> char \<Rightarrow> string list" where
  "Split [] sep = [[]]"
| "Split (c # s) sep =
     (if c = sep then [] # Split s sep
      else (case Split s sep of [] \<Rightarrow> [[c]] | f # fs \<Rightarrow> (c # f) # fs))"

text \<open>\<open>strings.Join\<close>.\<close>

fun Join :: "string list \<Rightarrow> string \<Rightarrow> string" where
  "Join [] sep = []"
| "Join [x] sep = x"
| "Join (x # y # xs) sep = x @ sep @ Join (y # xs) sep"

text \<open>
  \<open>strconv.Atoi\<close> for a 64-bit \<open>int\<close>: an optional sign and then decimal digits, at
  least one; a syntax error otherwise, a range error when the value does not fit.
\<close>

datatype NumError = ErrSyntax | ErrRange

definition between :: "char \<Rightarrow> char \<Rightarrow> char \<Rightarrow> bool" where
  "between lo hi c = (lo \<le> c \<and> c \<le> hi)"

definition is_digit :: "char \<Rightarrow> bool" where
  "is_digit c = between (CHR ''0'') (CHR ''9'') c"

definition digit_val :: "char \<Rightarrow> int" where
  "digit_val c = int (of_char c) - 48"

definition digits_val :: "string \<Rightarrow> int" where
  "digits_val ds = foldl (\<lambda>a c. 10 * a + digit_val c) 0 ds"

definition Atoi :: "string \<Rightarrow> NumError + int" where
  "Atoi s =
     (let neg = (s \<noteq> [] \<and> hd s = CHR ''-'');
          ds = (if s \<noteq> [] \<and> (hd s = CHR ''-'' \<or> hd s = CHR ''+'') then tl s else s)
      in if ds = [] \<or> \<not> list_all is_digit ds then Inl ErrSyntax
         else let v = (if neg then - digits_val ds else digits_val ds)
              in if v < - (2 ^ 63) \<or> 2 ^ 63 - 1 < v then Inl ErrRange else Inr v)"

text \<open>
  \<open>url.QueryEscape\<close>: letters, digits and \<open>- _ . ~\<close> stay, a space becomes \<open>+\<close>, every
  other byte becomes \<open>%XX\<close> in upper-case hexadecimal.
\<close>

definition is_alnum :: "char \<Rightarrow> bool" where
  "is_alnum c = (between (CHR ''a'') (CHR ''z'') c \<or> between (CHR ''A'') (CHR ''Z'') c
                 \<or> is_digit c)"

definition shouldEscape :: "char \<Rightarrow> bool" where
  "shouldEscape c = (\<not> (is_alnum c \<or> c \<in> set ''-_.~''))"

definition hex_char :: "nat \<Rightarrow> char" where
  "hex_char d = ''0123456789ABCDEF'' ! d"

definition escape_byte :: "char \<Rightarrow> string" where
  "escape_byte c =
     (if c = CHR '' '' then ''+''
      else if shouldEscape c
           then [CHR ''%'', hex_char (of_char c div 16), hex_char (of_char c mod 16)]
           else [c])"

definition QueryEscape :: "string \<Rightarrow> string" where
  "QueryEscape s = concat (map escape_byte s)"

text \<open>
  \<open>url.Values\<close> is a map from a key to its list of values; it is kept here as an
  association list with distinct keys. \<open>Add\<close> appends a value to the list of its key,
  \<open>Encode\<close> writes \<open>key=value\<close> for every value, the keys in sorted order, joined by \<open>&\<close>.
\<close>

type_synonym Values = "(string \<times> string list) list"

fun Values_Add :: "Values \<Rightarrow> string \<Rightarrow> string \<Rightarrow> Values" where
  "Values_Add [] k v = [(k, [v])]"
| "Values_Add ((k', vs) # r) k v =
     (if k' = k then (k', vs @ [v]) # r else (k', vs) # Values_Add r k v)"

definition encode_items :: "Values \<Rightarrow> string list" where
  "encode_items vals =
     concat (map (\<lambda>(k, vs). map (\<lambda>v. QueryEscape k @ ''='' @ QueryEscape v) vs)
                 (sort_key fst vals))"

definition Values_Encode :: "Values \<Rightarrow> string" where
  "Values_Encode vals = Join (encode_items vals) ''&''"

text \<open>
  \<open>textproto.CanonicalMIMEHeaderKey\<close>: a key with a byte that is not allowed in a
  header name is left as it is; otherwise the first letter and every letter after a
  hyphen is made upper case and every other letter lower case.
\<close>

definition lower_letters :: string where "lower_letters = ''abcdefghijklmnopqrstuvwxyz''"
definition upper_letters :: string where "upper_letters = ''ABCDEFGHIJKLMNOPQRSTUVWXYZ''"

definition to_upper :: "char \<Rightarrow> char" where
  "to_upper c = (case map_of (zip lower_letters upper_letters) c of Some u \<Rightarrow> u | None \<Rightarrow> c)"

definition to_lower :: "char \<Rightarrow> char" where
  "to_lower c = (case map_of (zip upper_letters lower_letters) c of Some l \<Rightarrow> l | None \<Rightarrow> c)"

definition validHeaderFieldByte :: "char \<Rightarrow> bool" where
  "validHeaderFieldByte c = (is_alnum c \<or> c \<in> set ''!#$%&*+-.^_`|~'' \<or> c = CHR 0x27)"

fun canonical_case :: "bool \<Rightarrow> string \<Rightarrow> string" where
  "canonical_case upper [] = []"
| "canonical_case upper (c # s) =
     (let c' = (if upper then to_upper c else to_lower c)
      in c' # canonical_case (c' = CHR ''-'') s)"

definition CanonicalMIMEHeaderKey :: "string \<Rightarrow> string" where
  "CanonicalMIMEHeaderKey s = (if list_all validHeaderFieldByte s then canonical_case True s else s)"

section \<open>Errors\<close>

text \<open>
  The package's sentinel errors (\<open>errors.New\<close> values, compared by identity), its
  \<open>*APIError\<close> (status code, message and wrapped error, which may be \<open>nil\<close>), and every
  other error value: \<open>Foreign msg inner\<close> is an error with text \<open>msg\<close> whose \<open>Unwrap\<close>
  gives \<open>inner\<close> (the result of \<open>fmt.Errorf\<close>, a transport error such as \<open>*url.Error\<close>,
  a context error).
\<close>

datatype sentinel =
    ErrMissingAPIKey | ErrInvalidAPIKey | ErrRateLimit | ErrUnauthorized | ErrForbidden
  | ErrNotFound | ErrServerError | ErrInvalidResponse | ErrInvalidParameters
  | ErrQueryTooLong | ErrEmptyQuery

datatype err =
    Sentinel sentinel
  | APIError int string "err option"
  | Foreign string "err option"




definition StatusUnauthorized :: int where "StatusUnauthorized = 401"
definition StatusForbidden :: int where "StatusForbidden = 403"
definition StatusNotFound :: int where "StatusNotFound = 404"
definition StatusTooManyRequests :: int where "StatusTooManyRequests = 429"
definition StatusOK :: int where "StatusOK = 200"

text \<open>
  An HTTP header is Go's \<open>map[string][]string\<close>; a response carries its status code,
  its status line, its header and what reading its body to the end gives.
\<close>

type_synonym Header = "string \<rightharpoonup> string list"

record Response =
  StatusCode :: int
  Status :: string
  Header :: Header
  Body :: "err + string"

definition NewHTTPError :: "Response \<Rightarrow> err" where
  "NewHTTPError resp =
     (let e =
        (if StatusCode resp = StatusUnauthorized then Sentinel ErrUnauthorized
         else if StatusCode resp = StatusForbidden then Sentinel ErrForbidden
         else if StatusCode resp = StatusNotFound then Sentinel ErrNotFound
         else if StatusCode resp = StatusTooManyRequests then Sentinel ErrRateLimit
         else if StatusCode resp \<ge> 500 then Sentinel ErrServerError
         else Foreign (''unexpected status code: '' @ Itoa (StatusCode resp)) None)
      in APIError (StatusCode resp) (Status resp) (Some e))"




text \<open>\<open>Header.Set\<close> and \<open>Header.Get\<close>: both canonicalise the key; \<open>Get\<close> gives the first value.\<close>

definition Header_Set :: "Header \<Rightarrow> string \<Rightarrow> string \<Rightarrow> Header" where
  "Header_Set h k v = h(CanonicalMIMEHeaderKey k \<mapsto> [v])"

definition Header_Get :: "Header \<Rightarrow> string \<Rightarrow> string" where
  "Header_Get h k =
     (case h (CanonicalMIMEHeaderKey k) of None \<Rightarrow> [] | Some [] \<Rightarrow> [] | Some (v # _) \<Rightarrow> v)"

text \<open>The text of an error, \<open>Error()\<close>.\<close>

definition sentinel_text :: "sentinel \<Rightarrow> string" where
  "sentinel_text s =
     (case s of
        ErrMissingAPIKey \<Rightarrow> ''missing API key''
      | ErrInvalidAPIKey \<Rightarrow> ''invalid API key''
      | ErrRateLimit \<Rightarrow> ''rate limit exceeded''
      | ErrUnauthorized \<Rightarrow> ''unauthorized''
      | ErrForbidden \<Rightarrow> ''forbidden''
      | ErrNotFound \<Rightarrow> ''not found''
      | ErrServerError \<Rightarrow> ''server error''
      | ErrInvalidResponse \<Rightarrow> ''invalid response''
      | ErrInvalidParameters \<Rightarrow> ''invalid parameters''
      | ErrQueryTooLong \<Rightarrow> ''query too long (max 400 chars or 50 words)''
      | ErrEmptyQuery \<Rightarrow> ''query cannot be empty'')"

fun Error :: "err \<Rightarrow> string" where
  "Error (Sentinel s) = sentinel_text s"
| "Error (APIError code msg None) =
     ''brave search API error: '' @ msg @ '' (status: '' @ Itoa code @ '')''"
| "Error (APIError code msg (Some e)) =
     ''brave search API error: '' @ msg @ '' (status: '' @ Itoa code @ ''): '' @ Error e"
| "Error (Foreign msg inner) = msg"

section \<open>Constants\<close>

definition BaseURL :: string where "BaseURL = ''https://api.search.brave.com/res/v1''"
definition WebSearchEndpoint :: string where "WebSearchEndpoint = ''/web/search''"

definition SafeSearchOff :: string where "SafeSearchOff = ''off''"
definition SafeSearchModerate :: string where "SafeSearchModerate = ''moderate''"
definition SafeSearchStrict :: string where "SafeSearchStrict = ''strict''"

definition FreshnessDay :: string where "FreshnessDay = ''pd''"
definition FreshnessWeek :: string where "FreshnessWeek = ''pw''"
definition FreshnessMonth :: string where "FreshnessMonth = ''pm''"
definition FreshnessYear :: string where "FreshnessYear = ''py''"

definition DefaultCount :: int where "DefaultCount = 20"
definition DefaultOffset :: int where "DefaultOffset = 0"
definition DefaultSafeSearch :: string where "DefaultSafeSearch = SafeSearchModerate"
definition DefaultCountry :: string where "DefaultCountry = ''US''"
definition DefaultSearchLang :: string where "DefaultSearchLang = ''en''"
definition DefaultUILang :: string where "DefaultUILang = ''en-US''"
definition DefaultTimeout :: int where "DefaultTimeout = 30"
definition DefaultMaxRetries :: int where "DefaultMaxRetries = 2"
definition DefaultUserAgent :: string where "DefaultUserAgent = ''go-brave-search/1.0''"
definition DefaultTextDecor :: bool where "DefaultTextDecor = True"
definition DefaultSpellCheck :: bool where "DefaultSpellCheck = True"

definition HeaderAccept :: string where "HeaderAccept = ''Accept''"
definition HeaderAcceptEncoding :: string where "HeaderAcceptEncoding = ''Accept-Encoding''"
definition HeaderUserAgent :: string where "HeaderUserAgent = ''User-Agent''"
definition HeaderSubscriptionToken :: string where "HeaderSubscriptionToken = ''X-Subscription-Token''"
definition HeaderCacheControl :: string where "HeaderCacheControl = ''Cache-Control''"

definition HeaderRateLimitLimit :: string where "HeaderRateLimitLimit = ''X-RateLimit-Limit''"
definition HeaderRateLimitRemaining :: string where
  "HeaderRateLimitRemaining = ''X-RateLimit-Remaining''"
definition HeaderRateLimitReset :: string where "HeaderRateLimitReset = ''X-RateLimit-Reset''"

definition MIMETypeJSON :: string where "MIMETypeJSON = ''application/json''"
definition MIMETypeGzip :: string where "MIMETypeGzip = ''gzip''"

definition ResultFilterNews :: string where "ResultFilterNews = ''news''"
definition UnitMetric :: string where "UnitMetric = ''metric''"
definition MethodGet :: string where "MethodGet = ''GET''"

text \<open>\<open>time.Second\<close>, in the nanoseconds of a \<open>time.Duration\<close>.\<close>

definition Second :: int where "Second = 1000000000"

section \<open>The transport\<close>

text \<open>
  A request as the client hands it to the transport. What a call of \<open>Do\<close> gives is a
  response, or an error together with the response Go returns beside it (usually
  \<open>nil\<close>). An \<open>*http.Client\<close> is taken as its \<open>Do\<close> method: the outcome of the call
  with a given index (0 for the first call of one \<open>makeRequest\<close>) on a given request.
\<close>

record Request =
  Method :: string
  URL :: string
  ReqHeader :: Header
  ReqBody :: "string option"

datatype do_result = DoOk Response | DoFail err "Response option"

type_synonym http_Client = "nat \<Rightarrow> Request \<Rightarrow> do_result"

text \<open>
  The context of a call: \<open>Done_first i\<close> tells whether, in the wait after attempt \<open>i\<close>,
  the context is done before the timer fires (which case the \<open>select\<close> takes);
  \<open>ctx_Err\<close> is what \<open>ctx.Err()\<close> then returns.
\<close>

record Context =
  Done_first :: "nat \<Rightarrow> bool"
  ctx_Err :: err

section \<open>Configuration and options\<close>

record ClientConfig =
  APIKey :: string
  BaseURL_of :: string
  Timeout :: int
  MaxRetries :: int
  UserAgent :: string
  DefaultCountry_of :: string
  DefaultSearchLang_of :: string
  DefaultUILang_of :: string
  HTTPClient :: "http_Client option"

text \<open>
  A \<open>ClientOption\<close> is a function that may change the configuration it is given and
  returns an error or \<open>nil\<close>: here it returns the configuration as it leaves it and the
  error.
\<close>

type_synonym ClientOption = "ClientConfig \<Rightarrow> ClientConfig \<times> err option"

definition WithTimeout :: "int \<Rightarrow> ClientOption" where
  "WithTimeout seconds = (\<lambda>c. (c\<lparr>Timeout := wrap64 (seconds * Second)\<rparr>, None))"

definition WithRetries :: "int \<Rightarrow> ClientOption" where
  "WithRetries retries =
     (\<lambda>c. if retries < 0 then (c, Some (Sentinel ErrInvalidParameters))
          else (c\<lparr>MaxRetries := retries\<rparr>, None))"

definition WithUserAgent :: "string \<Rightarrow> ClientOption" where
  "WithUserAgent userAgent = (\<lambda>c. (c\<lparr>UserAgent := userAgent\<rparr>, None))"

definition WithBaseURL :: "string \<Rightarrow> ClientOption" where
  "WithBaseURL baseURL = (\<lambda>c. (c\<lparr>BaseURL_of := baseURL\<rparr>, None))"

definition WithHTTPClient :: "http_Client option \<Rightarrow> ClientOption" where
  "WithHTTPClient client = (\<lambda>c. (c\<lparr>HTTPClient := client\<rparr>, None))"

definition WithDefaultCountry :: "string \<Rightarrow> ClientOption" where
  "WithDefaultCountry country = (\<lambda>c. (c\<lparr>DefaultCountry_of := country\<rparr>, None))"

definition WithDefaultSearchLanguage :: "string \<Rightarrow> ClientOption" where
  "WithDefaultSearchLanguage lang = (\<lambda>c. (c\<lparr>DefaultSearchLang_of := lang\<rparr>, None))"

definition WithDefaultUILanguage :: "string \<Rightarrow> ClientOption" where
  "WithDefaultUILanguage lang = (\<lambda>c. (c\<lparr>DefaultUILang_of := lang\<rparr>, None))"

text \<open>\<open>applyOptions\<close>: the loop over the options, left at the first error.\<close>

fun applyOptions :: "ClientConfig \<Rightarrow> ClientOption list \<Rightarrow> ClientConfig \<times> err option" where
  "applyOptions config [] = (config, None)"
| "applyOptions config (option # options) =
     (case option config of
        (config', Some e) \<Rightarrow> (config', Some e)
      | (config', None) \<Rightarrow> applyOptions config' options)"

record Client =
  config :: ClientConfig
  http :: http_Client

text \<open>
  \<open>NewClient\<close>. \<open>new_http_Client t\<close> stands for \<open>&http.Client{Timeout: t}\<close>, the client
  over the default transport, which is the network.
\<close>

definition NewClient ::
  "(int \<Rightarrow> http_Client) \<Rightarrow> string \<Rightarrow> ClientOption list \<Rightarrow> err + Client" where
  "NewClient new_http_Client apiKey options =
     (if apiKey = [] then Inl (Sentinel ErrMissingAPIKey)
      else
        let config0 = \<lparr>APIKey = apiKey, BaseURL_of = BaseURL,
                        Timeout = DefaultTimeout * Second, MaxRetries = DefaultMaxRetries,
                        UserAgent = DefaultUserAgent, DefaultCountry_of = DefaultCountry,
                        DefaultSearchLang_of = DefaultSearchLang,
                        DefaultUILang_of = DefaultUILang, HTTPClient = None\<rparr>
        in case applyOptions config0 options of
             (config1, Some e) \<Rightarrow> Inl e
           | (config1, None) \<Rightarrow>
               Inr \<lparr>config = config1,
                    http = (case HTTPClient config1 of
                              None \<Rightarrow> new_http_Client (Timeout config1)
                            | Some httpClient \<Rightarrow> httpClient)\<rparr>)"

section \<open>Responses and their accessors\<close>

text \<open>
  A pointer that may be \<open>nil\<close> is an \<^typ>\<open>'a option\<close>, and so is a slice, whose \<open>nil\<close>
  differs from the empty slice; \<open>len\<close> of both is 0. The small structures inside a
  result are tuples of their fields in the order of the source, and the sections the
  client does not decode further carry values of the opaque type \<open>any\<close>.
\<close>

typedecl any

definition len :: "'a list option \<Rightarrow> int" where
  "len xs = (case xs of None \<Rightarrow> 0 | Some l \<Rightarrow> int (length l))"

type_synonym Profile = "string \<times> string \<times> string \<times> string"
type_synonym ButtonResult = "string \<times> string \<times> string"
type_synonym DeepResults = "ButtonResult list option"
type_synonym MetaURL = "string \<times> string \<times> string \<times> string \<times> string"
type_synonym Thumbnail = "string \<times> string \<times> bool"
type_synonym MixedResultRef = "string \<times> int \<times> bool"
type_synonym MixedResponse =
  "string \<times> MixedResultRef list option \<times> MixedResultRef list option \<times> MixedResultRef list option"
type_synonym Section = "string \<times> any list option"
type_synonym DataSection = "string \<times> any option"

record SearchResult =
  Title :: string
  URL :: string
  IsSourceLocal :: bool
  IsSourceBoth :: bool
  Description :: string
  PageAge :: string
  PageFetched :: string
  Profile :: "Profile option"
  Language :: string
  FamilyFriendly :: bool
  Type :: string
  Subtype :: string
  IsLive :: bool
  DeepResults :: "DeepResults option"
  MetaURL :: "MetaURL option"
  Thumbnail :: "Thumbnail option"
  Age :: string

record Search =
  Type :: string
  Results :: "SearchResult list option"
  FamilyFriendly :: bool

record Query =
  Original :: string
  Altered :: string
  ShowStrictWarning :: bool
  IsNavigational :: bool
  IsNewsBreaking :: bool
  SpellcheckOff :: bool
  Country :: string
  BadResults :: bool
  ShouldFallback :: bool
  PostalCode :: string
  City :: string
  HeaderCountry :: string
  MoreResultsAvailable :: bool
  State :: string

record WebSearchResponse =
  Type :: string
  Discussions :: "Section option"
  FAQ :: "Section option"
  Infobox :: "DataSection option"
  Locations :: "Section option"
  Mixed :: "MixedResponse option"
  News :: "Section option"
  Query :: "Query option"
  Videos :: "Section option"
  Web :: "Search option"
  Summarizer :: "DataSection option"

definition GetWebResults :: "WebSearchResponse option \<Rightarrow> SearchResult list option" where
  "GetWebResults r =
     (case r of
        None \<Rightarrow> Some []
      | Some r' \<Rightarrow> (case Web r' of None \<Rightarrow> Some [] | Some w \<Rightarrow> Results w))"

definition HasMoreResults :: "WebSearchResponse option \<Rightarrow> bool" where
  "HasMoreResults r =
     (case r of
        None \<Rightarrow> False
      | Some r' \<Rightarrow>
          (case WebSearchResponse.Query r' of None \<Rightarrow> False | Some q \<Rightarrow> MoreResultsAvailable q))"

definition GetResultCount :: "WebSearchResponse option \<Rightarrow> int" where
  "GetResultCount r =
     (case r of
        None \<Rightarrow> 0
      | Some r' \<Rightarrow> (case Web r' of None \<Rightarrow> 0 | Some w \<Rightarrow> len (Results w)))"

definition GetFirstResult :: "WebSearchResponse option \<Rightarrow> SearchResult option" where
  "GetFirstResult r =
     (case r of
        None \<Rightarrow> None
      | Some r' \<Rightarrow>
          (case Web r' of
             None \<Rightarrow> None
           | Some w \<Rightarrow>
               (case Results w of None \<Rightarrow> None | Some [] \<Rightarrow> None | Some (x # _) \<Rightarrow> Some x)))"

definition IsWebResultEmpty :: "WebSearchResponse option \<Rightarrow> bool" where
  "IsWebResultEmpty r =
     (case r of
        None \<Rightarrow> True
      | Some r' \<Rightarrow> (case Web r' of None \<Rightarrow> True | Some w \<Rightarrow> len (Results w) = 0))"

section \<open>Search parameters and the request URL\<close>

record WebSearchParams =
  Query :: string
  Country :: string
  SearchLang :: string
  UILang :: string
  Count :: int
  Offset :: int
  SafeSearch :: string
  Freshness :: string
  TextDecorations :: bool
  Spellcheck :: bool
  ResultFilter :: string
  Goggles :: string
  Units :: string
  ExtraSnippets :: bool
  Summary :: bool

text \<open>The zero value \<open>WebSearchParams{}\<close>.\<close>

definition zero_WebSearchParams :: WebSearchParams where
  "zero_WebSearchParams =
     \<lparr>Query = [], Country = [], SearchLang = [], UILang = [], Count = 0, Offset = 0,
      SafeSearch = [], Freshness = [], TextDecorations = False, Spellcheck = False,
      ResultFilter = [], Goggles = [], Units = [], ExtraSnippets = False, Summary = False\<rparr>"

definition NewWebSearchParams :: WebSearchParams where
  "NewWebSearchParams =
     zero_WebSearchParams\<lparr>Count := DefaultCount, Offset := DefaultOffset,
       SafeSearch := DefaultSafeSearch, TextDecorations := DefaultTextDecor,
       Spellcheck := DefaultSpellCheck\<rparr>"

text \<open>The statement \<open>if cond { values.Add(key, value) }\<close>.\<close>

definition Add_if :: "bool \<Rightarrow> string \<Rightarrow> string \<Rightarrow> Values \<Rightarrow> Values" where
  "Add_if cond k v vals = (if cond then Values_Add vals k v else vals)"

definition buildRequestURL :: "Client \<Rightarrow> string \<Rightarrow> WebSearchParams \<Rightarrow> err + string" where
  "buildRequestURL c endpoint params =
     (let baseURL = BaseURL_of (config c);
          baseURL = (if \<not> HasSuffix baseURL ''/'' \<and> \<not> HasPrefix endpoint ''/''
                     then baseURL @ ''/'' else baseURL);
          baseURL = baseURL @ endpoint;
          vals = [];
          vals = Add_if (Query params \<noteq> []) ''q'' (Query params) vals;
          vals = Add_if (Country params \<noteq> []) ''country'' (Country params) vals;
          vals = Add_if (SearchLang params \<noteq> []) ''search_lang'' (SearchLang params) vals;
          vals = Add_if (UILang params \<noteq> []) ''ui_lang'' (UILang params) vals;
          vals = Add_if (Count params > 0) ''count'' (Itoa (Count params)) vals;
          vals = Add_if (Offset params > 0) ''offset'' (Itoa (Offset params)) vals;
          vals = Add_if (SafeSearch params \<noteq> []) ''safesearch'' (SafeSearch params) vals;
          vals = Add_if (Freshness params \<noteq> []) ''freshness'' (Freshness params) vals;
          vals = Values_Add vals ''text_decorations'' (FormatBool (TextDecorations params));
          vals = Values_Add vals ''spellcheck'' (FormatBool (Spellcheck params));
          vals = Add_if (ResultFilter params \<noteq> []) ''result_filter'' (ResultFilter params) vals;
          vals = Add_if (Goggles params \<noteq> []) ''goggles'' (Goggles params) vals;
          vals = Add_if (Units params \<noteq> []) ''units'' (Units params) vals;
          vals = Add_if (ExtraSnippets params) ''extra_snippets'' ''true'' vals;
          vals = Add_if (Summary params) ''summary'' ''true'' vals
      in Inr (baseURL @ ''?'' @ Values_Encode vals))"

section \<open>Rate-limit headers\<close>

record RateLimit =
  Limit :: int
  Remaining :: int
  Reset :: int

definition parseRateLimitHeaders :: "Response \<Rightarrow> RateLimit" where
  "parseRateLimitHeaders resp =
     (let rateLimit = \<lparr>Limit = 0, Remaining = 0, Reset = 0\<rparr>;
          limitStr = Header_Get (Header resp) HeaderRateLimitLimit;
          rateLimit =
            (if limitStr \<noteq> [] then
               (case Split limitStr (CHR '','') of
                  [] \<Rightarrow> rateLimit
                | first # _ \<Rightarrow>
                    (case Atoi (TrimSpace first) of
                       Inr limit \<Rightarrow> rateLimit\<lparr>Limit := limit\<rparr>
                     | Inl _ \<Rightarrow> rateLimit))
             else rateLimit);
          remainingStr = Header_Get (Header resp) HeaderRateLimitRemaining;
          rateLimit =
            (if remainingStr \<noteq> [] then
               (case Split remainingStr (CHR '','') of
                  [] \<Rightarrow> rateLimit
                | first # _ \<Rightarrow>
                    (case Atoi (TrimSpace first) of
                       Inr remain \<Rightarrow> rateLimit\<lparr>Remaining := remain\<rparr>
                     | Inl _ \<Rightarrow> rateLimit))
             else rateLimit);
          resetStr = Header_Get (Header resp) HeaderRateLimitReset;
          rateLimit =
            (if resetStr \<noteq> [] then
               (case Split resetStr (CHR '','') of
                  [] \<Rightarrow> rateLimit
                | first # _ \<Rightarrow>
                    (case Atoi (TrimSpace first) of
                       Inr reset \<Rightarrow> rateLimit\<lparr>Reset := reset\<rparr>
                     | Inl _ \<Rightarrow> rateLimit))
             else rateLimit)
      in rateLimit)"

section \<open>Executing a request\<close>

text \<open>
  What the client takes from Go's library besides the transport: whether
  \<open>http.NewRequestWithContext\<close> accepts the method and the URL (its error otherwise),
  \<open>gzip.NewReader\<close> on a body (its error, or what reading the decompressed body to the
  end gives) and \<open>json.Unmarshal\<close> into an empty \<open>WebSearchResponse\<close>.
\<close>

record Library =
  NewRequestWithContext :: "string \<Rightarrow> string \<Rightarrow> err option"
  gzip_NewReader :: "err + string \<Rightarrow> err + (err + string)"
  json_Unmarshal :: "string \<Rightarrow> WebSearchResponse option"

text \<open>A Go call returns or panics.\<close>

datatype 'a go = Returns 'a | Panics

text \<open>
  The retry loop of \<open>makeRequest\<close> is left by a \<open>return\<close> inside it, or by \<open>break\<close> or
  its condition, with the variables \<open>resp\<close> and \<open>respErr\<close> as they are then. The last
  argument counts the calls of \<open>Do\<close>.
\<close>

datatype loop_exit = Returned err | Fell "Response option" "err option"

function retry_loop ::
  "Client \<Rightarrow> Context \<Rightarrow> Request \<Rightarrow> int \<Rightarrow> Response option \<Rightarrow> err option \<Rightarrow> nat
     \<Rightarrow> loop_exit \<times> nat" where
  "retry_loop c ctx req attempt resp respErr n =
     (if attempt \<le> MaxRetries (config c) then
        (case http c n req of
           DoOk resp' \<Rightarrow>
             if StatusCode resp' < 500 then (Fell (Some resp') None, Suc n)
             else if attempt = MaxRetries (config c) then (Returned (NewHTTPError resp'), Suc n)
             else if Done_first ctx (nat attempt) then (Returned (ctx_Err ctx), Suc n)
             else retry_loop c ctx req (attempt + 1) (Some resp') None (Suc n)
         | DoFail e resp' \<Rightarrow>
             if attempt = MaxRetries (config c) then (Returned e, Suc n)
             else if Done_first ctx (nat attempt) then (Returned (ctx_Err ctx), Suc n)
             else retry_loop c ctx req (attempt + 1) resp' (Some e) (Suc n))
      else (Fell resp respErr, n))"
  by pat_completeness auto
termination
  by (relation "measure (\<lambda>(c, ctx, req, attempt, resp, respErr, n).
                  nat (MaxRetries (config c) + 1 - attempt))") auto

declare retry_loop.simps [simp del]

text \<open>
  What a call leaves behind: the number of calls of the transport, the URL the
  request is for once there is one, the rate limit computed by
  \<open>parseRateLimitHeaders\<close> if it was called, and what the call returns.
\<close>

record 'a call =
  attempts :: nat
  requestURL :: "string option"
  parsed :: "RateLimit option"
  ret :: "'a go"

definition read_body :: "Library \<Rightarrow> Response \<Rightarrow> err + string \<Rightarrow> err + WebSearchResponse" where
  "read_body lib resp rd =
     (case rd of
        Inl e \<Rightarrow> Inl e
      | Inr body \<Rightarrow>
          (case json_Unmarshal lib body of
             None \<Rightarrow> Inl (APIError (StatusCode resp) ''Failed to parse response''
                            (Some (Sentinel ErrInvalidResponse)))
           | Some r \<Rightarrow> Inr r))"

text \<open>The request \<open>makeRequest\<close> creates, with the headers it sets.\<close>

definition new_request :: "Client \<Rightarrow> string \<Rightarrow> string \<Rightarrow> (err + string) option \<Rightarrow> Request" where
  "new_request c method url body =
     (let h = Map.empty;
          h = Header_Set h HeaderAccept MIMETypeJSON;
          h = Header_Set h HeaderAcceptEncoding MIMETypeGzip;
          h = Header_Set h HeaderUserAgent (UserAgent (config c));
          h = Header_Set h HeaderSubscriptionToken (APIKey (config c));
          h = Header_Set h HeaderCacheControl ''no-cache'';
          h = (if body \<noteq> None then Header_Set h ''Content-Type'' MIMETypeJSON else h)
      in \<lparr>Method = method, URL = url, ReqHeader = h,
          ReqBody = (case body of Some (Inr b) \<Rightarrow> Some b | _ \<Rightarrow> None)\<rparr>)"

text \<open>
  \<open>makeRequest\<close>. \<open>body\<close> is \<open>None\<close> for a \<open>nil\<close> body and what \<open>json.Marshal\<close> makes of
  it otherwise; \<open>want\<close> is \<open>result != nil\<close>. The value returned is the error (\<open>Inl\<close>),
  or what was decoded into \<open>result\<close>, if anything. On a status other than 200 the
  body is read through the reader \<open>gzip.NewReader\<close> returned without a look at its
  error, and reading through the \<open>nil\<close> reader of a failed \<open>NewReader\<close> panics.
\<close>

definition makeRequest ::
  "Library \<Rightarrow> Client \<Rightarrow> Context \<Rightarrow> string \<Rightarrow> string \<Rightarrow> (err + string) option \<Rightarrow> bool
     \<Rightarrow> (err + WebSearchResponse option) call" where
  "makeRequest lib c ctx method url body want =
     (case body of
        Some (Inl e) \<Rightarrow>
          \<lparr>attempts = 0, requestURL = Some url, parsed = None, ret = Returns (Inl e)\<rparr>
      | _ \<Rightarrow>
        (case NewRequestWithContext lib method url of
           Some e \<Rightarrow>
             \<lparr>attempts = 0, requestURL = Some url, parsed = None, ret = Returns (Inl e)\<rparr>
         | None \<Rightarrow>
            (case retry_loop c ctx (new_request c method url body) 0 None None 0 of
                  (Returned e, n) \<Rightarrow>
                    \<lparr>attempts = n, requestURL = Some url, parsed = None, ret = Returns (Inl e)\<rparr>
                | (Fell None respErr, n) \<Rightarrow>
                    \<lparr>attempts = n, requestURL = Some url, parsed = None,
                     ret = Returns (Inl (Foreign
                             (''no response: '' @
                                (case respErr of None \<Rightarrow> ''%!w(<nil>)'' | Some e \<Rightarrow> Error e))
                             respErr))\<rparr>
                | (Fell (Some resp) respErr, n) \<Rightarrow>
                    if StatusCode resp \<noteq> StatusOK then
                      \<lparr>attempts = n, requestURL = Some url, parsed = None,
                       ret = (if Contains (Header_Get (Header resp) ''Content-Encoding'') ''gzip''
                              then (case gzip_NewReader lib (Body resp) of
                                      Inl e \<Rightarrow> Panics
                                    | Inr rd \<Rightarrow> Returns (Inl (NewHTTPError resp)))
                              else Returns (Inl (NewHTTPError resp)))\<rparr>
                    else
                      \<lparr>attempts = n, requestURL = Some url,
                       parsed = Some (parseRateLimitHeaders resp),
                       ret =
                         (if want then
                            (if Contains (Header_Get (Header resp) ''Content-Encoding'') ''gzip''
                             then (case gzip_NewReader lib (Body resp) of
                                     Inl e \<Rightarrow>
                                       Returns (Inl (Foreign
                                         (''failed to create gzip reader: '' @ Error e) (Some e)))
                                   | Inr rd \<Rightarrow>
                                       Returns (map_sum id Some (read_body lib resp rd)))
                             else Returns (map_sum id Some (read_body lib resp (Body resp))))
                          else Returns (Inr None))\<rparr>)))"

text \<open>The zero value of \<open>WebSearchResponse\<close>, which \<open>WebSearch\<close> decodes into.\<close>

definition zero_WebSearchResponse :: WebSearchResponse where
  "zero_WebSearchResponse =
     \<lparr>Type = [], Discussions = None, FAQ = None, Infobox = None, Locations = None,
      Mixed = None, News = None, Query = None, Videos = None, Web = None,
      Summarizer = None\<rparr>"

definition WebSearch ::
  "Library \<Rightarrow> Client \<Rightarrow> Context \<Rightarrow> string \<Rightarrow> WebSearchParams option
     \<Rightarrow> (err + WebSearchResponse) call" where
  "WebSearch lib c ctx query params =
     (if query = [] then
        \<lparr>attempts = 0, requestURL = None, parsed = None,
         ret = Returns (Inl (Sentinel ErrEmptyQuery))\<rparr>
      else if length query > 400 \<or> length (Fields query) > 50 then
        \<lparr>attempts = 0, requestURL = None, parsed = None,
         ret = Returns (Inl (Sentinel ErrQueryTooLong))\<rparr>
      else
        (let searchParams = (case params of None \<Rightarrow> zero_WebSearchParams | Some p \<Rightarrow> p);
             searchParams = searchParams\<lparr>Query := query\<rparr>;
             searchParams = (if Country searchParams = []
                             then searchParams\<lparr>Country := DefaultCountry_of (config c)\<rparr>
                             else searchParams);
             searchParams = (if SearchLang searchParams = []
                             then searchParams\<lparr>SearchLang := DefaultSearchLang_of (config c)\<rparr>
                             else searchParams);
             searchParams = (if UILang searchParams = []
                             then searchParams\<lparr>UILang := DefaultUILang_of (config c)\<rparr>
                             else searchParams);
             searchParams = (if Count searchParams = 0
                             then searchParams\<lparr>Count := DefaultCount\<rparr>
                             else searchParams);
             searchParams = (if SafeSearch searchParams = []
                             then searchParams\<lparr>SafeSearch := DefaultSafeSearch\<rparr>
                             else searchParams)
         in case buildRequestURL c WebSearchEndpoint searchParams of
              Inl e \<Rightarrow>
                \<lparr>attempts = 0, requestURL = None, parsed = None, ret = Returns (Inl e)\<rparr>
            | Inr url \<Rightarrow>
                (let r = makeRequest lib c ctx MethodGet url None True
                 in \<lparr>attempts = attempts r, requestURL = Some url, parsed = parsed r,
                     ret = (case ret r of
                              Panics \<Rightarrow> Panics
                            | Returns (Inl e) \<Rightarrow> Returns (Inl e)
                            | Returns (Inr None) \<Rightarrow> Returns (Inr zero_WebSearchResponse)
                            | Returns (Inr (Some response)) \<Rightarrow> Returns (Inr response))\<rparr>)))"

section \<open>Notions of the specification\<close>

text \<open>
  An attempt is retriable when the transport fails or answers with a status of 500 or
  more. When the attempts are used up, the error of the call is the transport error
  of the last attempt, or else the \<open>APIError\<close> made from its response.
\<close>

definition retriable :: "do_result \<Rightarrow> bool" where
  "retriable r = (case r of DoFail e resp \<Rightarrow> True | DoOk resp \<Rightarrow> 500 \<le> StatusCode resp)"

definition final_error :: "do_result \<Rightarrow> err" where
  "final_error r = (case r of DoFail e resp \<Rightarrow> e | DoOk resp \<Rightarrow> NewHTTPError resp)"

text \<open>A query that passes the two checks of \<open>WebSearch\<close>.\<close>

definition valid_query :: "string \<Rightarrow> bool" where
  "valid_query q = (q \<noteq> [] \<and> length q \<le> 400 \<and> length (Fields q) \<le> 50)"

text \<open>An item of a query string that is there under a condition.\<close>

definition opt :: "bool \<Rightarrow> 'a \<Rightarrow> 'a list" where
  "opt b x = (if b then [x] else [])"

text \<open>
  The integer a rate-limit header stands for: the first piece of the value up to a
  comma, without the white space around it, read as a decimal number; 0 when that
  is not a number, as for the empty value of an absent header.
\<close>

definition header_int :: "string \<Rightarrow> int" where
  "header_int s =
     (case Atoi (TrimSpace (takeWhile (\<lambda>c. c \<noteq> CHR '','') s)) of Inr n \<Rightarrow> n | Inl e \<Rightarrow> 0)"


text \<open>The draft configuration that \<open>NewClient\<close> hands to the options.\<close>

definition default_config :: "string \<Rightarrow> ClientConfig" where
  "default_config apiKey =
     \<lparr>APIKey = apiKey, BaseURL_of = BaseURL,
      Timeout = DefaultTimeout * Second, MaxRetries = DefaultMaxRetries,
      UserAgent = DefaultUserAgent, DefaultCountry_of = DefaultCountry,
      DefaultSearchLang_of = DefaultSearchLang,
      DefaultUILang_of = DefaultUILang, HTTPClient = None\<rparr>"

text \<open>
  The entries of a list that are switched on; the \<open>key=value\<close> items of one key of
  the values; the additions \<open>buildRequestURL\<close> makes to the values, in its order,
  each with its condition; and the items of the query string the specification
  documents, in the order of their keys.
\<close>

definition sel :: "(bool \<times> 'a) list \<Rightarrow> 'a list" where
  "sel E = map snd (filter fst E)"

definition item_of :: "string \<times> string list \<Rightarrow> string list" where
  "item_of = (\<lambda>(k, vs). map (\<lambda>v. QueryEscape k @ ''='' @ QueryEscape v) vs)"

definition query_values :: "WebSearchParams \<Rightarrow> (bool \<times> string \<times> string list) list" where
  "query_values params =
     [(Query params \<noteq> [], ''q'', [Query params]),
      (Country params \<noteq> [], ''country'', [Country params]),
      (SearchLang params \<noteq> [], ''search_lang'', [SearchLang params]),
      (UILang params \<noteq> [], ''ui_lang'', [UILang params]),
      (0 < Count params, ''count'', [Itoa (Count params)]),
      (0 < Offset params, ''offset'', [Itoa (Offset params)]),
      (SafeSearch params \<noteq> [], ''safesearch'', [SafeSearch params]),
      (Freshness params \<noteq> [], ''freshness'', [Freshness params]),
      (True, ''text_decorations'', [FormatBool (TextDecorations params)]),
      (True, ''spellcheck'', [FormatBool (Spellcheck params)]),
      (ResultFilter params \<noteq> [], ''result_filter'', [ResultFilter params]),
      (Goggles params \<noteq> [], ''goggles'', [Goggles params]),
      (Units params \<noteq> [], ''units'', [Units params]),
      (ExtraSnippets params, ''extra_snippets'', [''true'']),
      (Summary params, ''summary'', [''true''])]"

definition query_items :: "WebSearchParams \<Rightarrow> string list" where
  "query_items params =
     opt (0 < Count params) (''count='' @ Itoa (Count params)) @
     opt (Country params \<noteq> []) (''country='' @ QueryEscape (Country params)) @
     opt (ExtraSnippets params) ''extra_snippets=true'' @
     opt (Freshness params \<noteq> []) (''freshness='' @ QueryEscape (Freshness params)) @
     opt (Goggles params \<noteq> []) (''goggles='' @ QueryEscape (Goggles params)) @
     opt (0 < Offset params) (''offset='' @ Itoa (Offset params)) @
     opt (Query params \<noteq> []) (''q='' @ QueryEscape (Query params)) @
     opt (ResultFilter params \<noteq> []) (''result_filter='' @ QueryEscape (ResultFilter params)) @
     opt (SafeSearch params \<noteq> []) (''safesearch='' @ QueryEscape (SafeSearch params)) @
     opt (SearchLang params \<noteq> []) (''search_lang='' @ QueryEscape (SearchLang params)) @
     [''spellcheck='' @ (if Spellcheck params then ''true'' else ''false'')] @
     opt (Summary params) ''summary=true'' @
     [''text_decorations='' @ (if TextDecorations params then ''true'' else ''false'')] @
     opt (UILang params \<noteq> []) (''ui_lang='' @ QueryEscape (UILang params)) @
     opt (Units params \<noteq> []) (''units='' @ QueryEscape (Units params))"

text \<open>The part of the URL before the question mark, as \<open>buildRequestURL\<close> puts it together.\<close>

definition request_path :: "Client \<Rightarrow> string \<Rightarrow> string" where
  "request_path c endpoint =
     BaseURL_of (config c) @
     (if \<not> HasSuffix (BaseURL_of (config c)) ''/'' \<and> \<not> HasPrefix endpoint ''/''
      then ''/'' else []) @ endpoint"

text \<open>
  A base URL without the slash it ends with and an endpoint without the slash it
  starts with, if they have one: with exactly one slash between these two, the base
  URL and the endpoint are joined by one separator.
\<close>

definition trim_slash_end :: "string \<Rightarrow> string" where
  "trim_slash_end s = (if HasSuffix s ''/'' then butlast s else s)"

definition trim_slash_start :: "string \<Rightarrow> string" where
  "trim_slash_start s = (if HasPrefix s ''/'' then tl s else s)"

text \<open>
  The parameters of a search after the defaults: the query is put in, and the country,
  the two languages, the count and the safe-search level are filled in where the
  caller left them empty or zero.
\<close>

definition with_defaults :: "Client \<Rightarrow> string \<Rightarrow> WebSearchParams option \<Rightarrow> WebSearchParams" where
  "with_defaults c q params =
     (let p = (case params of None \<Rightarrow> zero_WebSearchParams | Some p' \<Rightarrow> p')
      in p\<lparr>Query := q,
           Country := (if Country p = [] then DefaultCountry_of (config c) else Country p),
           SearchLang := (if SearchLang p = [] then DefaultSearchLang_of (config c)
                          else SearchLang p),
           UILang := (if UILang p = [] then DefaultUILang_of (config c) else UILang p),
           Count := (if Count p = 0 then DefaultCount else Count p),
           SafeSearch := (if SafeSearch p = [] then DefaultSafeSearch else SafeSearch p)\<rparr>)"

text \<open>
  A response that announces a gzip body that \<open>gzip.NewReader\<close> refuses. When its
  status is not 200, \<open>makeRequest\<close> panics on it.
\<close>

definition unreadable_gzip :: "Library \<Rightarrow> Response \<Rightarrow> bool" where
  "unreadable_gzip lib resp =
     (Contains (Header_Get (Header resp) ''Content-Encoding'') ''gzip'' \<and>
      isl (gzip_NewReader lib (Body resp)))"

text \<open>The bytes that the encodings of white space start with, and those they end with.\<close>

definition space_first_bytes :: "char list" where
  "space_first_bytes =
     [CHR 0x09, CHR 0x0A, CHR 0x0B, CHR 0x0C, CHR 0x0D, CHR 0x20, CHR 0xC2, CHR 0xE1, CHR 0xE2,
      CHR 0xE3]"

definition space_last_bytes :: "char list" where
  "space_last_bytes =
     [CHR 0x09, CHR 0x0A, CHR 0x0B, CHR 0x0C, CHR 0x0D, CHR 0x20, CHR 0x85, CHR 0xA0, CHR 0x80,
      CHR 0x81, CHR 0x82, CHR 0x83, CHR 0x84, CHR 0x86, CHR 0x87, CHR 0x88, CHR 0x89,
      CHR 0x8A, CHR 0xA8, CHR 0xA9, CHR 0xAF, CHR 0x9F]"

section \<open>Example inputs\<close>

definition example_lib :: Library where
  "example_lib =
     \<lparr>NewRequestWithContext = (\<lambda>method url. None),
      gzip_NewReader = (\<lambda>body. Inl (Foreign ''gzip: invalid header'' None)),
      json_Unmarshal = (\<lambda>body. Some zero_WebSearchResponse)\<rparr>"

definition example_config :: "string \<Rightarrow> int \<Rightarrow> ClientConfig" where
  "example_config baseURL retries =
     \<lparr>APIKey = ''test-api-key'', BaseURL_of = baseURL, Timeout = DefaultTimeout * Second,
      MaxRetries = retries, UserAgent = DefaultUserAgent, DefaultCountry_of = DefaultCountry,
      DefaultSearchLang_of = DefaultSearchLang, DefaultUILang_of = DefaultUILang,
      HTTPClient = None\<rparr>"

definition example_client :: "http_Client \<Rightarrow> string \<Rightarrow> int \<Rightarrow> Client" where
  "example_client h baseURL retries = \<lparr>config = example_config baseURL retries, http = h\<rparr>"

definition example_response :: "int \<Rightarrow> string \<Rightarrow> Response" where
  "example_response code line =
     \<lparr>StatusCode = code, Status = line, Header = Map.empty, Body = Inr ''{}''\<rparr>"

definition always_503 :: http_Client where
  "always_503 i req = DoOk (example_response 503 ''503 Service Unavailable'')"


definition always_429 :: http_Client where
  "always_429 i req = DoOk (example_response 429 ''429 Too Many Requests'')"

definition fails_twice :: http_Client where
  "fails_twice i req =
     (if i < 2 then DoOk (example_response 503 ''503 Service Unavailable'')
      else DoOk (example_response 200 ''200 OK''))"

text \<open>A library whose \<open>NewRequestWithContext\<close> refuses a URL with a space in it.\<close>

definition strict_lib :: Library where
  "strict_lib =
     example_lib\<lparr>NewRequestWithContext :=
       (\<lambda>method url. if CHR '' '' \<in> set url
                      then Some (Foreign ''parse: invalid character in host name'' None)
                      else None)\<rparr>"

definition background :: Context where
  "background = \<lparr>Done_first = (\<lambda>i. False), ctx_Err = Foreign ''context canceled'' None\<rparr>"

definition cancelled :: Context where
  "cancelled = \<lparr>Done_first = (\<lambda>i. True), ctx_Err = Foreign ''context canceled'' None\<rparr>"

definition rate_limited_response :: "int \<Rightarrow> string \<Rightarrow> Response" where
  "rate_limited_response code line =
     \<lparr>StatusCode = code, Status = line,
      Header = Header_Set (Header_Set (Header_Set Map.empty
                 HeaderRateLimitLimit ''10, 15000'')
                 HeaderRateLimitRemaining ''9, 14999'')
                 HeaderRateLimitReset ''1, 1419704'',
      Body = Inr ''{}''\<rparr>"

text \<open>A transport that gives the same response to every call.\<close>

definition answers :: "Response \<Rightarrow> http_Client" where
  "answers resp i req = DoOk resp"

text \<open>An option that always fails, and a network that answers 503.\<close>

definition refuses :: "sentinel \<Rightarrow> ClientOption" where
  "refuses s = (\<lambda>c. (c, Some (Sentinel s)))"

definition network :: "int \<Rightarrow> http_Client" where
  "network timeout = always_503"

text \<open>The parameters of the repository's test with every field set.\<close>

definition all_set :: WebSearchParams where
  "all_set =
     \<lparr>Query = ''test query'', Country = ''JP'', SearchLang = ''ja'', UILang = ''ja-JP'',
      Count = 10, Offset = 2, SafeSearch = SafeSearchStrict, Freshness = FreshnessWeek,
      TextDecorations = True, Spellcheck = False, ResultFilter = ResultFilterNews,
      Goggles = ''custom-goggle'', Units = UnitMetric, ExtraSnippets = True,
      Summary = True\<rparr>"

text \<open>A 401 that announces a gzip body and has an empty one.\<close>

definition gzip_401 :: Response where
  "gzip_401 =
     \<lparr>StatusCode = 401, Status = ''401 Unauthorized'',
      Header = Header_Set Map.empty ''Content-Encoding'' ''gzip'', Body = Inr []\<rparr>"

section \<open>The error helpers\<close>











section \<open>The retry loop\<close>

lemma retry_loop_last:
  assumes "attempt = MaxRetries (config c)" and "retriable (http c n req)"
  shows "retry_loop c ctx req attempt resp respErr n = (Returned (final_error (http c n req)), Suc n)"
  using assms
  by (subst retry_loop.simps) (auto simp: retriable_def final_error_def split: do_result.splits)

lemma retry_loop_retry:
  assumes "attempt < MaxRetries (config c)" and "retriable (http c n req)"
    and "\<not> Done_first ctx (nat attempt)"
  shows "\<exists>resp' respErr'. retry_loop c ctx req attempt resp respErr n =
           retry_loop c ctx req (attempt + 1) resp' respErr' (Suc n)"
  using assms
  by (subst retry_loop.simps) (auto simp: retriable_def split: do_result.splits)

lemma retry_loop_cancel:
  assumes "attempt < MaxRetries (config c)" and "retriable (http c n req)"
    and "Done_first ctx (nat attempt)"
  shows "retry_loop c ctx req attempt resp respErr n = (Returned (ctx_Err ctx), Suc n)"
  using assms
  by (subst retry_loop.simps) (auto simp: retriable_def split: do_result.splits)

lemma retry_loop_break:
  assumes "attempt \<le> MaxRetries (config c)" and "http c n req = DoOk r" and "StatusCode r < 500"
  shows "retry_loop c ctx req attempt resp respErr n = (Fell (Some r) None, Suc n)"
  using assms
  by (subst retry_loop.simps) auto

lemma retry_loop_exhaust:
  assumes "0 \<le> attempt" and "attempt + int k = MaxRetries (config c)"
    and "\<forall>i\<le>k. retriable (http c (n + i) req)"
    and "\<forall>i<k. \<not> Done_first ctx (nat attempt + i)"
  shows "retry_loop c ctx req attempt resp respErr n =
           (Returned (final_error (http c (n + k) req)), Suc (n + k))"
  using assms
proof (induction k arbitrary: attempt resp respErr n)
  case 0
  then show ?case using retry_loop_last [of attempt c n req ctx resp respErr] by simp
next
  case (Suc k)
  have lt: "attempt < MaxRetries (config c)" using Suc.prems(2) by simp
  have r0: "retriable (http c n req)" using Suc.prems(3) by (metis add_0_right le0)
  have d0: "\<not> Done_first ctx (nat attempt)" using Suc.prems(4) by (metis add_0_right zero_less_Suc)
  obtain resp' respErr' where step:
    "retry_loop c ctx req attempt resp respErr n =
       retry_loop c ctx req (attempt + 1) resp' respErr' (Suc n)"
    using retry_loop_retry [OF lt r0 d0] by blast
  have a: "0 \<le> attempt + 1" using Suc.prems(1) by simp
  have b: "attempt + 1 + int k = MaxRetries (config c)" using Suc.prems(2) by simp
  have c: "\<forall>i\<le>k. retriable (http c (Suc n + i) req)"
  proof (intro allI impI)
    fix i assume "i \<le> k"
    then have "Suc i \<le> Suc k" by simp
    then have "retriable (http c (n + Suc i) req)" using Suc.prems(3) by blast
    then show "retriable (http c (Suc n + i) req)" by simp
  qed
  have d: "\<forall>i<k. \<not> Done_first ctx (nat (attempt + 1) + i)"
  proof (intro allI impI)
    fix i assume "i < k"
    then have "Suc i < Suc k" by simp
    then have "\<not> Done_first ctx (nat attempt + Suc i)" using Suc.prems(4) by blast
    moreover have "nat (attempt + 1) + i = nat attempt + Suc i" using Suc.prems(1) by simp
    ultimately show "\<not> Done_first ctx (nat (attempt + 1) + i)" by simp
  qed
  show ?case using Suc.IH [OF a b c d, of resp' respErr'] step by simp
qed

lemma retry_loop_stops:
  assumes "0 \<le> attempt" and "attempt + int k \<le> MaxRetries (config c)"
    and "\<forall>i<k. retriable (http c (n + i) req)"
    and "\<forall>i<k. \<not> Done_first ctx (nat attempt + i)"
    and "http c (n + k) req = DoOk r" and "StatusCode r < 500"
  shows "retry_loop c ctx req attempt resp respErr n = (Fell (Some r) None, Suc (n + k))"
  using assms
proof (induction k arbitrary: attempt resp respErr n)
  case 0
  then show ?case using retry_loop_break [of attempt c n req r ctx resp respErr] by simp
next
  case (Suc k)
  have lt: "attempt < MaxRetries (config c)" using Suc.prems(2) by simp
  have r0: "retriable (http c n req)" using Suc.prems(3) by (metis add_0_right zero_less_Suc)
  have d0: "\<not> Done_first ctx (nat attempt)" using Suc.prems(4) by (metis add_0_right zero_less_Suc)
  obtain resp' respErr' where step:
    "retry_loop c ctx req attempt resp respErr n =
       retry_loop c ctx req (attempt + 1) resp' respErr' (Suc n)"
    using retry_loop_retry [OF lt r0 d0] by blast
  have a: "0 \<le> attempt + 1" using Suc.prems(1) by simp
  have b: "attempt + 1 + int k \<le> MaxRetries (config c)" using Suc.prems(2) by simp
  have c: "\<forall>i<k. retriable (http c (Suc n + i) req)"
  proof (intro allI impI)
    fix i assume "i < k"
    then have "Suc i < Suc k" by simp
    then have "retriable (http c (n + Suc i) req)" using Suc.prems(3) by blast
    then show "retriable (http c (Suc n + i) req)" by simp
  qed
  have d: "\<forall>i<k. \<not> Done_first ctx (nat (attempt + 1) + i)"
  proof (intro allI impI)
    fix i assume "i < k"
    then have "Suc i < Suc k" by simp
    then have "\<not> Done_first ctx (nat attempt + Suc i)" using Suc.prems(4) by blast
    moreover have "nat (attempt + 1) + i = nat attempt + Suc i" using Suc.prems(1) by simp
    ultimately show "\<not> Done_first ctx (nat (attempt + 1) + i)" by simp
  qed
  have e: "http c (Suc n + k) req = DoOk r" using Suc.prems(5) by simp
  show ?case using Suc.IH [OF a b c d e Suc.prems(6), of resp' respErr'] step by simp
qed

section \<open>Calls of \<open>makeRequest\<close>\<close>

lemma makeRequest_created:
  assumes "\<forall>e. body \<noteq> Some (Inl e)" and "NewRequestWithContext lib method url = None"
    and "retry_loop c ctx (new_request c method url body) 0 None None 0 = (ex, n)"
  shows "attempts (makeRequest lib c ctx method url body want) = n"
    and "requestURL (makeRequest lib c ctx method url body want) = Some url"
    and "ex = Returned e \<Longrightarrow>
           makeRequest lib c ctx method url body want =
             \<lparr>attempts = n, requestURL = Some url, parsed = None, ret = Returns (Inl e)\<rparr>"
    and "ex = Fell (Some resp) respErr \<Longrightarrow>
           parsed (makeRequest lib c ctx method url body want) =
             (if StatusCode resp = StatusOK then Some (parseRateLimitHeaders resp) else None)"
    and "ex = Fell (Some resp) respErr \<Longrightarrow> StatusCode resp \<noteq> StatusOK \<Longrightarrow>
           ret (makeRequest lib c ctx method url body want) =
             (if unreadable_gzip lib resp then Panics else Returns (Inl (NewHTTPError resp)))"
  using assms
  by (auto simp: makeRequest_def unreadable_gzip_def
      split: option.splits sum.splits loop_exit.splits)

lemma makeRequest_exhaust:
  assumes N: "MaxRetries (config c) = int N"
    and body: "\<forall>e. body \<noteq> Some (Inl e)"
    and new: "NewRequestWithContext lib method url = None"
    and all: "\<forall>i\<le>N. retriable (http c i (new_request c method url body))"
    and waits: "\<forall>i<N. \<not> Done_first ctx i"
  shows "makeRequest lib c ctx method url body want =
           \<lparr>attempts = N + 1, requestURL = Some url, parsed = None,
            ret = Returns (Inl (final_error (http c N (new_request c method url body))))\<rparr>"
proof -
  have "retry_loop c ctx (new_request c method url body) 0 None None 0 =
          (Returned (final_error (http c (0 + N) (new_request c method url body))), Suc (0 + N))"
    by (rule retry_loop_exhaust) (use N all waits in auto)
  then show ?thesis
    using makeRequest_created(3) [OF body new, of c ctx _ "Suc N"] by simp
qed

lemma makeRequest_stops:
  assumes N: "MaxRetries (config c) = int N" and k: "k \<le> N"
    and body: "\<forall>e. body \<noteq> Some (Inl e)"
    and new: "NewRequestWithContext lib method url = None"
    and before: "\<forall>i<k. retriable (http c i (new_request c method url body))"
    and waits: "\<forall>i<k. \<not> Done_first ctx i"
    and ok: "http c k (new_request c method url body) = DoOk r" "StatusCode r < 500"
  shows "retry_loop c ctx (new_request c method url body) 0 None None 0 =
           (Fell (Some r) None, Suc k)"
proof -
  have "retry_loop c ctx (new_request c method url body) 0 None None 0 =
          (Fell (Some r) None, Suc (0 + k))"
    by (rule retry_loop_stops) (use N k before waits ok in auto)
  then show ?thesis by simp
qed

lemma makeRequest_final:
  assumes N: "MaxRetries (config c) = int N" and k: "k \<le> N"
    and body: "\<forall>e. body \<noteq> Some (Inl e)"
    and new: "NewRequestWithContext lib meth url = None"
    and before: "\<forall>i<k. retriable (http c i (new_request c meth url body))"
    and waits: "\<forall>i<k. \<not> Done_first ctx i"
    and ok: "http c k (new_request c meth url body) = DoOk r" "StatusCode r < 500"
  shows "attempts (makeRequest lib c ctx meth url body want) = k + 1"
    and "parsed (makeRequest lib c ctx meth url body want) =
           (if StatusCode r = StatusOK then Some (parseRateLimitHeaders r) else None)"
    and "StatusCode r \<noteq> StatusOK \<Longrightarrow>
           ret (makeRequest lib c ctx meth url body want) =
             (if unreadable_gzip lib r then Panics else Returns (Inl (NewHTTPError r)))"
proof -
  have l: "retry_loop c ctx (new_request c meth url body) 0 None None 0 =
           (Fell (Some r) None, Suc k)"
    by (rule makeRequest_stops [OF N k body new before waits ok])
  show "attempts (makeRequest lib c ctx meth url body want) = k + 1"
    using makeRequest_created(1) [OF body new l] by simp
  show "parsed (makeRequest lib c ctx meth url body want) =
           (if StatusCode r = StatusOK then Some (parseRateLimitHeaders r) else None)"
    using makeRequest_created(4) [OF body new l] by simp
  show "StatusCode r \<noteq> StatusOK \<Longrightarrow>
           ret (makeRequest lib c ctx meth url body want) =
             (if unreadable_gzip lib r then Panics else Returns (Inl (NewHTTPError r)))"
    using makeRequest_created(5) [OF body new l] by simp
qed

section \<open>The checks of the query\<close>

lemma concat_length_ge: "[] \<notin> set cs \<Longrightarrow> length cs \<le> length (concat cs)"
proof (induction cs)
  case Nil
  then show ?case by simp
next
  case (Cons x cs)
  then have "x \<noteq> []" by auto
  then have "1 \<le> length x" by (cases x) simp_all
  moreover have "length cs \<le> length (concat cs)" using Cons by auto
  ultimately show ?case by simp
qed

lemma Fields_Nil: "Fields [] = []"
  by (simp add: Fields_def)

lemma fields_from_length:
  "length (fields_from s cur) \<le> length s + (if cur = [] then 0 else 1)"
proof (induction s cur rule: fields_from.induct)
  case (1 cur)
  then show ?case by simp
next
  case (2 c s cur)
  show ?case
  proof (cases "0 < space_width (c # s)")
    case True
    then have "length (fields_from (drop (space_width (c # s)) (c # s)) []) \<le> length s"
      using 2(1) by auto
    then show ?thesis using True by auto
  next
    case False
    then show ?thesis using 2(2) by auto
  qed
qed

lemma short_query_valid: "q \<noteq> [] \<Longrightarrow> length q \<le> 50 \<Longrightarrow> valid_query q"
  using fields_from_length [of q "[]"] by (simp add: valid_query_def Fields_def)

lemma space_width_letter: "space_width (CHR ''a'' # s) = 0"
  by (simp add: space_width_def space_encodings_def HasPrefix_def)

lemma space_width_blank: "space_width (CHR '' '' # s) = 1"
  by (simp add: space_width_def space_encodings_def HasPrefix_def)

lemma fields_from_tokens: "fields_from (concat (replicate n ''a '')) [] = replicate n ''a''"
  by (induction n) (simp_all add: space_width_letter space_width_blank)

section \<open>Parsing the rate-limit headers\<close>

lemma Split_first: "Split s sep = takeWhile (\<lambda>c. c \<noteq> sep) s # tl (Split s sep)"
  by (induction s) (auto split: list.splits)

lemma TrimSpace_Nil: "TrimSpace [] = []"
  by (simp add: TrimSpace_def trim_left.simps trim_right.simps space_width_def
      space_width_end_def HasPrefix_def HasSuffix_def space_encodings_def)

lemma Atoi_Nil: "Atoi [] = Inl ErrSyntax"
  by (simp add: Atoi_def)

lemma header_int_Nil: "header_int [] = 0"
  by (simp add: header_int_def TrimSpace_Nil Atoi_Nil)

lemma parse_one:
  "(if s \<noteq> [] then
      (case Split s (CHR '','') of [] \<Rightarrow> d
       | first # rest \<Rightarrow> (case Atoi (TrimSpace first) of Inr n \<Rightarrow> f n | Inl e \<Rightarrow> d))
    else d) =
   (case Atoi (TrimSpace (takeWhile (\<lambda>c. c \<noteq> CHR '','') s)) of Inr n \<Rightarrow> f n | Inl e \<Rightarrow> d)"
proof (cases "s = []")
  case True
  then show ?thesis by (simp add: TrimSpace_Nil Atoi_Nil)
next
  case False
  then show ?thesis by (subst Split_first) simp
qed

lemma parseRateLimitHeaders_fields:
  "parseRateLimitHeaders resp =
     \<lparr>Limit = header_int (Header_Get (Header resp) HeaderRateLimitLimit),
      Remaining = header_int (Header_Get (Header resp) HeaderRateLimitRemaining),
      Reset = header_int (Header_Get (Header resp) HeaderRateLimitReset)\<rparr>"
  unfolding parseRateLimitHeaders_def Let_def parse_one header_int_def
  by (simp split: sum.splits)

lemma canonical_keys:
  "CanonicalMIMEHeaderKey HeaderRateLimitLimit = ''X-Ratelimit-Limit''"
  "CanonicalMIMEHeaderKey HeaderRateLimitRemaining = ''X-Ratelimit-Remaining''"
  "CanonicalMIMEHeaderKey HeaderRateLimitReset = ''X-Ratelimit-Reset''"
  by (simp_all add: HeaderRateLimitLimit_def HeaderRateLimitRemaining_def
      HeaderRateLimitReset_def CanonicalMIMEHeaderKey_def validHeaderFieldByte_def
      is_alnum_def is_digit_def between_def Let_def to_upper_def to_lower_def
      lower_letters_def upper_letters_def)

lemma header_int_examples:
  "header_int ''10, 15000'' = 10" "header_int ''9, 14999'' = 9" "header_int ''1, 1419704'' = 1"
  by (simp_all add: header_int_def TrimSpace_def trim_left.simps trim_right.simps
      space_width_def space_width_end_def HasPrefix_def HasSuffix_def space_encodings_def
      Atoi_def is_digit_def between_def digits_val_def digit_val_def)

lemma Header_Get_absent:
  "h (CanonicalMIMEHeaderKey k) = None \<Longrightarrow> Header_Get h k = []"
  by (simp add: Header_Get_def)


section \<open>Constructing a client\<close>

lemma applyOptions_append:
  "applyOptions cfg (xs @ ys) =
     (case applyOptions cfg xs of
        (cfg', None) \<Rightarrow> applyOptions cfg' ys
      | (cfg', Some e) \<Rightarrow> (cfg', Some e))"
  by (induction xs arbitrary: cfg) (auto split: prod.splits option.splits)

lemma NewClient_config:
  "apiKey \<noteq> [] \<Longrightarrow>
   NewClient new apiKey options =
     (case applyOptions (default_config apiKey) options of
        (config1, Some e) \<Rightarrow> Inl e
      | (config1, None) \<Rightarrow>
          Inr \<lparr>config = config1,
               http = (case HTTPClient config1 of None \<Rightarrow> new (Timeout config1)
                       | Some httpClient \<Rightarrow> httpClient)\<rparr>)"
  by (simp add: NewClient_def default_config_def Let_def)

section \<open>The query string\<close>

lemma Values_Add_fresh: "k \<notin> set (map fst vals) \<Longrightarrow> Values_Add vals k v = vals @ [(k, [v])]"
  by (induction vals) auto

lemma keys_sel: "k \<notin> set (map (\<lambda>e. fst (snd e)) E) \<Longrightarrow> k \<notin> set (map fst (sel E))"
  by (auto simp: sel_def)

lemma sel_snoc: "sel (E @ [(b, x)]) = sel E @ opt b x"
  by (simp add: sel_def opt_def)

lemma Add_if_Nil: "Add_if b k v [] = sel [(b, (k, [v]))]"
  by (simp add: Add_if_def sel_def)

lemma Add_if_sel:
  assumes "k \<notin> set (map (\<lambda>e. fst (snd e)) E)"
  shows "Add_if b k v (sel E) = sel (E @ [(b, (k, [v]))])"
proof -
  have "Values_Add (sel E) k v = sel E @ [(k, [v])]"
    by (rule Values_Add_fresh) (rule keys_sel [OF assms])
  then show ?thesis by (simp add: Add_if_def sel_snoc opt_def)
qed

lemma Values_Add_sel:
  assumes "k \<notin> set (map (\<lambda>e. fst (snd e)) E)"
  shows "Values_Add (sel E) k v = sel (E @ [(True, (k, [v]))])"
proof -
  have "Values_Add (sel E) k v = sel E @ [(k, [v])]"
    by (rule Values_Add_fresh) (rule keys_sel [OF assms])
  then show ?thesis by (simp add: sel_snoc opt_def)
qed

lemma insort_key_map:
  "insort_key f (g x) (map g ys) = map g (insort_key (\<lambda>y. f (g y)) x ys)"
  by (induction ys) auto

lemma sort_key_map: "sort_key f (map g xs) = map g (sort_key (\<lambda>y. f (g y)) xs)"
  by (induction xs) (auto simp: insort_key_map)

lemma sort_sel: "sort_key fst (sel E) = sel (sort_key (\<lambda>e. fst (snd e)) E)"
  by (simp add: sel_def sort_key_map filter_sort)

lemma encode_items_sel:
  "encode_items (sel E) = concat (map item_of (sel (sort_key (\<lambda>e. fst (snd e)) E)))"
  by (simp add: encode_items_def sort_sel item_of_def)

lemma items_sel_Nil: "concat (map item_of (sel [])) = []"
  by (simp add: sel_def)

lemma items_sel_Cons:
  "concat (map item_of (sel ((b, (k, [v])) # E))) =
     opt b (QueryEscape k @ ''='' @ QueryEscape v) @ concat (map item_of (sel E))"
  by (simp add: sel_def opt_def item_of_def)

lemma buildRequestURL_values:
  "buildRequestURL c endpoint params =
     Inr (BaseURL_of (config c) @
          (if \<not> HasSuffix (BaseURL_of (config c)) ''/'' \<and> \<not> HasPrefix endpoint ''/''
           then ''/'' else []) @
          endpoint @ ''?'' @ Values_Encode (sel (query_values params)))"
  unfolding buildRequestURL_def Let_def query_values_def
  by (simp add: Add_if_Nil Add_if_sel Values_Add_sel)

lemma sorted_query_values:
  "sort_key (\<lambda>e. fst (snd e)) (query_values params) =
     [(0 < Count params, ''count'', [Itoa (Count params)]),
      (Country params \<noteq> [], ''country'', [Country params]),
      (ExtraSnippets params, ''extra_snippets'', [''true'']),
      (Freshness params \<noteq> [], ''freshness'', [Freshness params]),
      (Goggles params \<noteq> [], ''goggles'', [Goggles params]),
      (0 < Offset params, ''offset'', [Itoa (Offset params)]),
      (Query params \<noteq> [], ''q'', [Query params]),
      (ResultFilter params \<noteq> [], ''result_filter'', [ResultFilter params]),
      (SafeSearch params \<noteq> [], ''safesearch'', [SafeSearch params]),
      (SearchLang params \<noteq> [], ''search_lang'', [SearchLang params]),
      (True, ''spellcheck'', [FormatBool (Spellcheck params)]),
      (Summary params, ''summary'', [''true'']),
      (True, ''text_decorations'', [FormatBool (TextDecorations params)]),
      (UILang params \<noteq> [], ''ui_lang'', [UILang params]),
      (Units params \<noteq> [], ''units'', [Units params])]"
  by (simp add: query_values_def)

lemma QueryEscape_plain:
  "list_all (\<lambda>c. \<not> shouldEscape c \<and> c \<noteq> CHR '' '') s \<Longrightarrow> QueryEscape s = s"
  by (induction s) (auto simp: QueryEscape_def escape_byte_def)

lemma QueryEscape_keys:
  "QueryEscape ''count'' = ''count''" "QueryEscape ''country'' = ''country''"
  "QueryEscape ''extra_snippets'' = ''extra_snippets''" "QueryEscape ''freshness'' = ''freshness''"
  "QueryEscape ''goggles'' = ''goggles''" "QueryEscape ''offset'' = ''offset''"
  "QueryEscape ''q'' = ''q''" "QueryEscape ''result_filter'' = ''result_filter''"
  "QueryEscape ''safesearch'' = ''safesearch''" "QueryEscape ''search_lang'' = ''search_lang''"
  "QueryEscape ''spellcheck'' = ''spellcheck''" "QueryEscape ''summary'' = ''summary''"
  "QueryEscape ''text_decorations'' = ''text_decorations''" "QueryEscape ''ui_lang'' = ''ui_lang''"
  "QueryEscape ''units'' = ''units''" "QueryEscape ''true'' = ''true''"
  "QueryEscape ''false'' = ''false''"
  by (rule QueryEscape_plain, simp add: shouldEscape_def is_alnum_def is_digit_def between_def)+

lemma digit_char_plain: "d < 10 \<Longrightarrow> is_digit (digit_char d)"
proof -
  assume "d < 10"
  then have "d \<in> {0, 1, 2, 3, 4, 5, 6, 7, 8, 9}" by auto
  then show ?thesis
    by (auto simp: digit_char_def is_digit_def between_def)
qed

lemma digits_plain: "list_all is_digit (digits n)"
proof (induction n rule: digits.induct)
  case (1 n)
  show ?case
  proof (cases "n < 10")
    case True
    then show ?thesis by (subst digits.simps) (simp add: digit_char_plain)
  next
    case False
    then have "list_all is_digit (digits (n div 10))" using 1 by simp
    moreover have "is_digit (digit_char (n mod 10))" by (rule digit_char_plain) simp
    ultimately show ?thesis using False by (subst digits.simps) simp
  qed
qed

lemma is_digit_plain: "is_digit c \<Longrightarrow> \<not> shouldEscape c \<and> c \<noteq> CHR '' ''"
  by (auto simp: shouldEscape_def is_alnum_def is_digit_def between_def)

lemma QueryEscape_Itoa: "QueryEscape (Itoa n) = Itoa n"
proof (rule QueryEscape_plain)
  have d: "list_all (\<lambda>c. \<not> shouldEscape c \<and> c \<noteq> CHR '' '') (digits m)" for m
    using digits_plain [of m] by (auto simp: list_all_iff is_digit_plain)
  have m: "\<not> shouldEscape (CHR ''-'')" by (simp add: shouldEscape_def)
  show "list_all (\<lambda>c. \<not> shouldEscape c \<and> c \<noteq> CHR '' '') (Itoa n)"
    by (simp add: Itoa_def d m)
qed

lemma Values_Encode_query:
  "Values_Encode (sel (query_values params)) = Join (query_items params) ''&''"
  unfolding Values_Encode_def encode_items_sel sorted_query_values query_items_def
  by (simp add: items_sel_Cons items_sel_Nil QueryEscape_keys QueryEscape_Itoa FormatBool_def
      opt_def [of True])

lemma Split_plain: "c \<notin> set x \<Longrightarrow> Split x c = [x]"
  by (induction x) auto

lemma Split_append_sep: "c \<notin> set x \<Longrightarrow> Split (x @ c # rest) c = x # Split rest c"
  by (induction x) auto

lemma Split_Join:
  "xs \<noteq> [] \<Longrightarrow> list_all (\<lambda>x. c \<notin> set x) xs \<Longrightarrow> Split (Join xs [c]) c = xs"
proof (induction xs "[c]" rule: Join.induct)
  case 1
  then show ?case by simp
next
  case (2 x)
  then show ?case by (simp add: Split_plain)
next
  case (3 x y xs)
  then show ?case by (simp add: Split_append_sep)
qed

lemma hex_char_plain: "d < 16 \<Longrightarrow> hex_char d \<noteq> CHR ''&''"
proof -
  assume d: "d < 16"
  have "hex_char d \<in> set ''0123456789ABCDEF''"
    unfolding hex_char_def by (rule nth_mem) (use d in simp)
  then show ?thesis by auto
qed

lemma of_char_div: "of_char c div 16 < (16 :: nat)"
proof -
  have d: "n < 256 \<Longrightarrow> n div 16 < 16" for n :: nat by arith
  show ?thesis by (rule d) (rule nat_of_char_less_256)
qed

lemma escape_byte_no_amp: "CHR ''&'' \<notin> set (escape_byte c)"
  using hex_char_plain [OF of_char_div [of c]] hex_char_plain [of "of_char c mod 16"]
  by (auto simp: escape_byte_def shouldEscape_def is_alnum_def is_digit_def between_def)

lemma QueryEscape_no_amp: "CHR ''&'' \<notin> set (QueryEscape s)"
  by (induction s) (auto simp: QueryEscape_def escape_byte_no_amp)

lemma Itoa_no_amp: "CHR ''&'' \<notin> set (Itoa n)"
  using QueryEscape_no_amp [of "Itoa n"] by (simp add: QueryEscape_Itoa)

lemma query_items_no_amp: "list_all (\<lambda>x. CHR ''&'' \<notin> set x) (query_items params)"
  by (simp add: query_items_def opt_def QueryEscape_no_amp Itoa_no_amp)

lemma query_items_not_Nil: "query_items params \<noteq> []"
  by (simp add: query_items_def)

lemma Split_query: "Split (Join (query_items params) ''&'') (CHR ''&'') = query_items params"
  by (rule Split_Join [OF query_items_not_Nil query_items_no_amp])

lemma buildRequestURL_closed:
  "buildRequestURL c endpoint params =
     Inr (BaseURL_of (config c) @
          (if \<not> HasSuffix (BaseURL_of (config c)) ''/'' \<and> \<not> HasPrefix endpoint ''/''
           then ''/'' else []) @
          endpoint @ ''?'' @ Join (query_items params) ''&'')"
  by (simp only: buildRequestURL_values Values_Encode_query)

lemma list_ex_opt: "list_ex P (opt b x) = (b \<and> P x)"
  by (simp add: opt_def)

lemma flag_items:
  "(''spellcheck='' @ (if Spellcheck p then ''true'' else ''false'')) \<in> set (query_items p)"
  "(''text_decorations='' @ (if TextDecorations p then ''true'' else ''false''))
     \<in> set (query_items p)"
  by (simp_all add: query_items_def)

lemma offset_item:
  "(\<exists>x\<in>set (query_items p). HasPrefix x ''offset='') \<longleftrightarrow> 0 < Offset p"
proof -
  have "list_ex (\<lambda>x. HasPrefix x ''offset='') (query_items p) \<longleftrightarrow> 0 < Offset p"
    by (simp add: query_items_def list_ex_opt HasPrefix_def)
  then show ?thesis by (simp only: list_ex_iff)
qed

lemma Itoa_examples: "Itoa 10 = ''10''" "Itoa 2 = ''2''" "Itoa 20 = ''20''"
  by (simp_all add: Itoa_def digits.simps digit_char_def)

lemma QueryEscape_examples:
  "QueryEscape ''test query'' = ''test+query''" "QueryEscape ''JP'' = ''JP''"
  "QueryEscape ''ja'' = ''ja''" "QueryEscape ''ja-JP'' = ''ja-JP''"
  "QueryEscape ''strict'' = ''strict''" "QueryEscape ''pw'' = ''pw''"
  "QueryEscape ''news'' = ''news''" "QueryEscape ''custom-goggle'' = ''custom-goggle''"
  "QueryEscape ''metric'' = ''metric''"
  by (simp_all add: QueryEscape_def escape_byte_def shouldEscape_def is_alnum_def is_digit_def
      between_def)

lemma QueryEscape_more:
  "QueryEscape ''US'' = ''US''" "QueryEscape ''en'' = ''en''" "QueryEscape ''en-US'' = ''en-US''"
  "QueryEscape ''go programming'' = ''go+programming''" "QueryEscape ''go'' = ''go''"
  "QueryEscape ''moderate'' = ''moderate''"
  by (simp_all add: QueryEscape_def escape_byte_def shouldEscape_def is_alnum_def is_digit_def
      between_def)

section \<open>The path of the request\<close>

lemma HasSuffix_slash: "HasSuffix s ''/'' \<longleftrightarrow> s \<noteq> [] \<and> last s = CHR ''/''"
proof (cases s rule: rev_cases)
  case Nil
  then show ?thesis by (simp add: HasSuffix_def)
next
  case (snoc xs x)
  then show ?thesis by (auto simp: HasSuffix_def)
qed

lemma HasPrefix_slash: "HasPrefix s ''/'' \<longleftrightarrow> s \<noteq> [] \<and> hd s = CHR ''/''"
  by (cases s) (auto simp: HasPrefix_def)

lemma trim_slash_end_append:
  "HasSuffix s ''/'' \<Longrightarrow> trim_slash_end s @ ''/'' = s"
  by (simp add: trim_slash_end_def HasSuffix_slash snoc_eq_iff_butlast)

lemma trim_slash_start_append:
  "HasPrefix s ''/'' \<Longrightarrow> ''/'' @ trim_slash_start s = s"
  by (cases s) (auto simp: trim_slash_start_def HasPrefix_slash)

lemma request_path_cases:
  "request_path c endpoint =
     trim_slash_end (BaseURL_of (config c)) @
     (if HasSuffix (BaseURL_of (config c)) ''/'' \<and> HasPrefix endpoint ''/'' then ''//'' else ''/'') @
     trim_slash_start endpoint"
proof -
  let ?b = "BaseURL_of (config c)"
  consider (both) "HasSuffix ?b ''/''" "HasPrefix endpoint ''/''"
    | (base) "HasSuffix ?b ''/''" "\<not> HasPrefix endpoint ''/''"
    | (ep) "\<not> HasSuffix ?b ''/''" "HasPrefix endpoint ''/''"
    | (neither) "\<not> HasSuffix ?b ''/''" "\<not> HasPrefix endpoint ''/''"
    by blast
  then show ?thesis
  proof cases
    case both
    have "?b @ endpoint = (trim_slash_end ?b @ ''/'') @ (''/'' @ trim_slash_start endpoint)"
      using both by (simp only: trim_slash_end_append trim_slash_start_append)
    then show ?thesis using both by (simp add: request_path_def)
  next
    case base
    have "?b @ endpoint = (trim_slash_end ?b @ ''/'') @ endpoint"
      using base by (simp only: trim_slash_end_append)
    then show ?thesis using base by (simp add: request_path_def trim_slash_start_def)
  next
    case ep
    have "?b @ endpoint = ?b @ (''/'' @ trim_slash_start endpoint)"
      using ep by (simp only: trim_slash_start_append)
    then show ?thesis using ep by (simp add: request_path_def trim_slash_end_def)
  next
    case neither
    then show ?thesis by (simp add: request_path_def trim_slash_end_def trim_slash_start_def)
  qed
qed

section \<open>The URL of a search\<close>

lemma buildRequestURL_Inr: "buildRequestURL c endpoint params \<noteq> Inl e"
  unfolding buildRequestURL_def Let_def by (rule sum.distinct(2))

lemma case_buildRequestURL:
  "\<exists>url. (case buildRequestURL c endpoint params of Inl e \<Rightarrow> f e | Inr url \<Rightarrow> g url) = g url"
  by (cases "buildRequestURL c endpoint params") (auto simp: buildRequestURL_Inr)

lemma WebSearch_valid:
  assumes "valid_query q"
  shows "\<exists>url. WebSearch lib c ctx q params =
           (let r = makeRequest lib c ctx MethodGet url None True
            in \<lparr>attempts = attempts r, requestURL = Some url, parsed = parsed r,
                ret = (case ret r of
                         Panics \<Rightarrow> Panics
                       | Returns (Inl e) \<Rightarrow> Returns (Inl e)
                       | Returns (Inr None) \<Rightarrow> Returns (Inr zero_WebSearchResponse)
                       | Returns (Inr (Some response)) \<Rightarrow> Returns (Inr response))\<rparr>)"
proof -
  have q: "q \<noteq> []" "\<not> (length q > 400 \<or> length (Fields q) > 50)"
    using assms by (auto simp: valid_query_def)
  show ?thesis
    unfolding WebSearch_def if_not_P [OF q(1)] if_not_P [OF q(2)]
    unfolding Let_def
    by (rule case_buildRequestURL)
qed

lemma WebSearch_exhaust:
  assumes q: "valid_query q"
    and N: "MaxRetries (config c) = int N"
    and new: "\<forall>url. NewRequestWithContext lib MethodGet url = None"
    and all: "\<forall>i\<le>N. \<forall>req. retriable (http c i req)"
    and waits: "\<forall>i<N. \<not> Done_first ctx i"
  shows "attempts (WebSearch lib c ctx q params) = N + 1 \<and>
         (\<exists>req. ret (WebSearch lib c ctx q params) = Returns (Inl (final_error (http c N req))))"
proof -
  obtain url where u: "WebSearch lib c ctx q params =
           (let r = makeRequest lib c ctx MethodGet url None True
            in \<lparr>attempts = attempts r, requestURL = Some url, parsed = parsed r,
                ret = (case ret r of
                         Panics \<Rightarrow> Panics
                       | Returns (Inl e) \<Rightarrow> Returns (Inl e)
                       | Returns (Inr None) \<Rightarrow> Returns (Inr zero_WebSearchResponse)
                       | Returns (Inr (Some response)) \<Rightarrow> Returns (Inr response))\<rparr>)"
    using WebSearch_valid [OF q] by blast
  have "makeRequest lib c ctx MethodGet url None True =
           \<lparr>attempts = N + 1, requestURL = Some url, parsed = None,
            ret = Returns (Inl (final_error (http c N (new_request c MethodGet url None))))\<rparr>"
    by (rule makeRequest_exhaust) (use N new all waits in auto)
  then show ?thesis using u by (auto simp: Let_def)
qed

lemma if_update:
  "(if b then r\<lparr>Country := d\<rparr> else r) = r\<lparr>Country := (if b then d else Country r)\<rparr>"
  "(if b then r\<lparr>SearchLang := d\<rparr> else r) = r\<lparr>SearchLang := (if b then d else SearchLang r)\<rparr>"
  "(if b then r\<lparr>UILang := d\<rparr> else r) = r\<lparr>UILang := (if b then d else UILang r)\<rparr>"
  "(if b then r\<lparr>Count := n\<rparr> else r) = r\<lparr>Count := (if b then n else Count r)\<rparr>"
  "(if b then r\<lparr>SafeSearch := d\<rparr> else r) = r\<lparr>SafeSearch := (if b then d else SafeSearch r)\<rparr>"
  for r :: WebSearchParams
  by simp_all

lemma WebSearch_url:
  assumes "valid_query q"
  shows "requestURL (WebSearch lib c ctx q params) =
           Some (request_path c WebSearchEndpoint @ ''?'' @
                 Join (query_items (with_defaults c q params)) ''&'')"
proof -
  have q: "q \<noteq> []" "\<not> (length q > 400 \<or> length (Fields q) > 50)"
    using assms by (auto simp: valid_query_def)
  have "WebSearch lib c ctx q params =
          (case buildRequestURL c WebSearchEndpoint (with_defaults c q params) of
             Inl e \<Rightarrow>
               \<lparr>attempts = 0, requestURL = None, parsed = None, ret = Returns (Inl e)\<rparr>
           | Inr url \<Rightarrow>
               (let r = makeRequest lib c ctx MethodGet url None True
                in \<lparr>attempts = attempts r, requestURL = Some url, parsed = parsed r,
                    ret = (case ret r of
                             Panics \<Rightarrow> Panics
                           | Returns (Inl e) \<Rightarrow> Returns (Inl e)
                           | Returns (Inr None) \<Rightarrow> Returns (Inr zero_WebSearchResponse)
                           | Returns (Inr (Some response)) \<Rightarrow> Returns (Inr response))\<rparr>))"
    unfolding WebSearch_def if_not_P [OF q(1)] if_not_P [OF q(2)] with_defaults_def
    unfolding Let_def if_update
    by simp
  then show ?thesis
    by (simp add: buildRequestURL_closed request_path_def Let_def)
qed

lemma items_of_nil:
  "query_items (with_defaults c q None) =
     [''count=20''] @
     opt (DefaultCountry_of (config c) \<noteq> [])
       (''country='' @ QueryEscape (DefaultCountry_of (config c))) @
     [''q='' @ QueryEscape q, ''safesearch=moderate''] @
     opt (DefaultSearchLang_of (config c) \<noteq> [])
       (''search_lang='' @ QueryEscape (DefaultSearchLang_of (config c))) @
     [''spellcheck=false'', ''text_decorations=false''] @
     opt (DefaultUILang_of (config c) \<noteq> [])
       (''ui_lang='' @ QueryEscape (DefaultUILang_of (config c))) \<and> q \<noteq> []" if "q \<noteq> []"
  using that
  by (simp add: query_items_def with_defaults_def zero_WebSearchParams_def opt_def
      DefaultCount_def DefaultSafeSearch_def SafeSearchModerate_def Itoa_examples
      QueryEscape_plain shouldEscape_def is_alnum_def is_digit_def between_def)

lemma flags_kept:
  "TextDecorations (with_defaults c q (Some p)) = TextDecorations p"
  "Spellcheck (with_defaults c q (Some p)) = Spellcheck p"
  "Offset (with_defaults c q (Some p)) = Offset p"
  "ExtraSnippets (with_defaults c q (Some p)) = ExtraSnippets p"
  "Summary (with_defaults c q (Some p)) = Summary p"
  by (simp_all add: with_defaults_def)

section \<open>Facts about the example inputs\<close>

lemma example_MaxRetries: "MaxRetries (config (example_client h u n)) = n"
  by (simp add: example_client_def example_config_def)

lemma example_http: "http (example_client h u n) = h"
  by (simp add: example_client_def)

lemma example_new: "NewRequestWithContext example_lib m u = None"
  by (simp add: example_lib_def)

lemma example_BaseURL: "BaseURL_of (config (example_client h u n)) = u"
  by (simp add: example_client_def example_config_def)

lemma example_defaults:
  "DefaultCountry_of (config (example_client h u n)) = ''US''"
  "DefaultSearchLang_of (config (example_client h u n)) = ''en''"
  "DefaultUILang_of (config (example_client h u n)) = ''en-US''"
  by (simp_all add: example_client_def example_config_def DefaultCountry_def
      DefaultSearchLang_def DefaultUILang_def)


lemma example_path:
  "request_path (example_client h BaseURL n) WebSearchEndpoint =
     ''https://api.search.brave.com/res/v1/web/search''"
  by (simp add: request_path_def example_client_def example_config_def BaseURL_def
      WebSearchEndpoint_def HasPrefix_def)

lemma background_waits: "\<not> Done_first background i"
  by (simp add: background_def)

lemma retriable_503: "retriable (always_503 i req)"
  by (simp add: retriable_def always_503_def example_response_def)

lemma Contains_Nil: "Contains [] (c # s) = False"
  by simp



lemma rate_limited_fields:
  "StatusCode (rate_limited_response code line) = code"
  "parseRateLimitHeaders (rate_limited_response code line) = \<lparr>Limit = 10, Remaining = 9, Reset = 1\<rparr>"
proof -
  show "StatusCode (rate_limited_response code line) = code"
    by (simp add: rate_limited_response_def)
  have h: "Header_Get (Header (rate_limited_response code line)) HeaderRateLimitLimit = ''10, 15000''"
    "Header_Get (Header (rate_limited_response code line)) HeaderRateLimitRemaining = ''9, 14999''"
    "Header_Get (Header (rate_limited_response code line)) HeaderRateLimitReset = ''1, 1419704''"
    by (simp_all add: rate_limited_response_def Header_Get_def Header_Set_def canonical_keys)
  show "parseRateLimitHeaders (rate_limited_response code line) = \<lparr>Limit = 10, Remaining = 9, Reset = 1\<rparr>"
    by (simp add: parseRateLimitHeaders_fields h header_int_examples)
qed

lemma zero_items:
  "Join (query_items zero_WebSearchParams) ''&'' = ''spellcheck=false&text_decorations=false''"
  by (simp add: query_items_def zero_WebSearchParams_def opt_def)

text \<open>
  A response with a status other than 200 whose body is announced as gzip and is not:
  \<open>makeRequest\<close> reads it through the \<open>nil\<close> reader and panics, so that no error is
  returned. The statements about the error of such a response are about the calls
  that return.
\<close>

lemma unreadable_gzip_panics:
  "ret (makeRequest example_lib (example_client (answers gzip_401) BaseURL 2) background
          MethodGet ''https://api.search.brave.com/res/v1/web/search?q=go'' None True) = Panics"
proof -
  let ?c = "example_client (answers gzip_401) BaseURL 2"
  let ?u = "''https://api.search.brave.com/res/v1/web/search?q=go''"
  have s: "StatusCode gzip_401 = 401" by (simp add: gzip_401_def)
  have k: "CanonicalMIMEHeaderKey ''Content-Encoding'' = ''Content-Encoding''"
    by (simp add: CanonicalMIMEHeaderKey_def validHeaderFieldByte_def is_alnum_def is_digit_def
        between_def Let_def to_upper_def to_lower_def lower_letters_def upper_letters_def)
  have h: "Header_Get (Header gzip_401) ''Content-Encoding'' = ''gzip''"
    by (simp add: gzip_401_def Header_Get_def Header_Set_def k)
  have g: "Contains ''gzip'' ''gzip''" by (simp add: HasPrefix_def)
  have "retry_loop ?c background (new_request ?c MethodGet ?u None) 0 None None 0 =
          (Fell (Some gzip_401) None, Suc 0)"
    by (rule retry_loop_break) (simp_all add: example_MaxRetries example_http answers_def s)
  then show ?thesis
    using g by (simp add: makeRequest_def example_new s StatusOK_def h example_lib_def)
qed

section \<open>Reading a decimal number back\<close>

lemma digit_val_digit_char: "d < 10 \<Longrightarrow> digit_val (digit_char d) = int d"
proof -
  assume "d < 10"
  then have "d \<in> {0, 1, 2, 3, 4, 5, 6, 7, 8, 9}" by auto
  then show ?thesis by (auto simp: digit_val_def digit_char_def)
qed

lemma digits_val_snoc: "digits_val (ds @ [c]) = 10 * digits_val ds + digit_val c"
  by (simp add: digits_val_def)

lemma digits_val_digits: "digits_val (digits n) = int n"
proof (induction n rule: digits.induct)
  case (1 n)
  show ?case
  proof (cases "n < 10")
    case True
    then show ?thesis
      by (subst digits.simps) (simp add: digits_val_def digit_val_digit_char)
  next
    case False
    then have "digits_val (digits (n div 10)) = int (n div 10)" using 1 by simp
    moreover have "digit_val (digit_char (n mod 10)) = int (n mod 10)"
      by (rule digit_val_digit_char) simp
    moreover have "int n = int (10 * (n div 10) + n mod 10)" by simp
    then have "int n = 10 * int (n div 10) + int (n mod 10)"
      by (simp only: of_nat_add of_nat_mult of_nat_numeral)
    ultimately have "digits_val (digits (n div 10) @ [digit_char (n mod 10)]) = int n"
      by (simp add: digits_val_snoc)
    then show ?thesis using False by (subst digits.simps) simp
  qed
qed

lemma digits_not_Nil: "digits n \<noteq> []"
  by (subst digits.simps) simp

lemma is_digit_no_sign: "is_digit c \<Longrightarrow> c \<noteq> CHR ''-'' \<and> c \<noteq> CHR ''+'' \<and> c \<noteq> CHR '',''"
  by (auto simp: is_digit_def between_def)

lemma hd_digits: "is_digit (hd (digits n))"
  using digits_plain [of n] digits_not_Nil [of n] by (cases "digits n") simp_all

lemma last_digits: "is_digit (last (digits n))"
  using digits_plain [of n] digits_not_Nil [of n] by (simp add: list_all_iff)

lemma Atoi_digits: "int n < 2 ^ 63 \<Longrightarrow> Atoi (digits n) = Inr (int n)"
  using hd_digits [of n] is_digit_no_sign [of "hd (digits n)"]
  by (simp add: Atoi_def Let_def digits_not_Nil digits_plain digits_val_digits)

lemma Atoi_minus_digits: "int n \<le> 2 ^ 63 \<Longrightarrow> Atoi (CHR ''-'' # digits n) = Inr (- int n)"
  by (simp add: Atoi_def Let_def digits_not_Nil digits_plain digits_val_digits)

lemma Atoi_Itoa: "- (2 ^ 63) \<le> i \<Longrightarrow> i < 2 ^ 63 \<Longrightarrow> Atoi (Itoa i) = Inr i"
  using Atoi_digits [of "nat i"] Atoi_minus_digits [of "nat (- i)"]
  by (auto simp: Itoa_def)


lemma space_width_other: "c \<notin> set space_first_bytes \<Longrightarrow> space_width (c # s) = 0"
  by (simp add: space_first_bytes_def space_width_def space_encodings_def HasPrefix_def)

lemma HasSuffix_last: "HasSuffix s p \<Longrightarrow> p \<noteq> [] \<Longrightarrow> last s = last p"
proof -
  assume h: "HasSuffix s p" and p: "p \<noteq> []"
  from h have d: "drop (length s - length p) s = p" and l: "length p \<le> length s"
    by (simp_all add: HasSuffix_def)
  from p l have "length s - length p < length s" by (cases p) auto
  then have "last (drop (length s - length p) s) = last s" by (rule last_drop)
  with d show ?thesis by simp
qed

lemma space_width_end_other:
  assumes "s \<noteq> []" and "last s \<notin> set space_last_bytes"
  shows "space_width_end s = 0"
proof -
  have "\<not> HasSuffix s p" if "p \<in> set space_encodings" for p
  proof
    assume h: "HasSuffix s p"
    from that have "p \<noteq> []" and "last p \<in> set space_last_bytes"
      by (auto simp: space_encodings_def space_last_bytes_def)
    with HasSuffix_last [OF h] assms(2) show False by simp
  qed
  then have "filter (HasSuffix s) space_encodings = []" by (simp add: filter_empty_conv)
  then show ?thesis by (simp add: space_width_end_def)
qed

lemma digit_not_space:
  "is_digit c \<Longrightarrow> c \<notin> set space_first_bytes \<and> c \<notin> set space_last_bytes"
  by (auto simp: is_digit_def between_def space_first_bytes_def space_last_bytes_def)

lemma Itoa_ends: "Itoa i \<noteq> [] \<and> hd (Itoa i) \<notin> set space_first_bytes \<and>
  last (Itoa i) \<notin> set space_last_bytes \<and> CHR '','' \<notin> set (Itoa i)"
proof -
  have c: "CHR '','' \<notin> set (digits n)" for n
    using digits_plain [of n] is_digit_no_sign by (auto simp: list_all_iff)
  have m: "CHR ''-'' \<notin> set space_first_bytes" by (simp add: space_first_bytes_def)
  show ?thesis
    using hd_digits [of "nat i"] last_digits [of "nat i"] last_digits [of "nat (- i)"]
      digit_not_space
    by (auto simp: Itoa_def digits_not_Nil c m)
qed

lemma trim_left_blanks: "trim_left (replicate a (CHR '' '') @ s) = trim_left s"
  by (induction a) (simp_all add: trim_left.simps [of "CHR '' '' # _"] space_width_blank)

lemma HasSuffix_blank:
  "HasSuffix (s @ [c]) p \<longleftrightarrow> p = [] \<or> (last p = c \<and> HasSuffix s (butlast p))"
proof (cases p rule: rev_cases)
  case Nil
  then show ?thesis by (simp add: HasSuffix_def)
next
  case (snoc q x)
  then show ?thesis by (auto simp: HasSuffix_def)
qed

lemma space_width_end_blank: "space_width_end (s @ '' '') = 1"
  by (simp add: space_width_end_def space_encodings_def HasSuffix_blank)
     (simp add: HasSuffix_def)

lemma trim_right_blanks: "trim_right (s @ replicate b (CHR '' '')) = trim_right s"
proof (induction b)
  case 0
  then show ?case by simp
next
  case (Suc b)
  have "s @ replicate (Suc b) (CHR '' '') = (s @ replicate b (CHR '' '')) @ '' ''"
    by (simp add: replicate_append_same)
  then have "trim_right (s @ replicate (Suc b) (CHR '' '')) =
               trim_right (s @ replicate b (CHR '' ''))"
    by (simp only: trim_right.simps [of "(s @ replicate b (CHR '' '')) @ '' ''"]
        space_width_end_blank) simp
  then show ?case using Suc by simp
qed

lemma TrimSpace_padded:
  assumes "t \<noteq> []" and "hd t \<notin> set space_first_bytes" and "last t \<notin> set space_last_bytes"
  shows "TrimSpace (replicate a (CHR '' '') @ t @ replicate b (CHR '' '')) = t"
proof -
  obtain c u where t: "t = c # u" using assms(1) by (cases t) auto
  have "space_width (t @ replicate b (CHR '' '')) = 0"
    using assms(2) by (simp add: t space_width_other)
  then have l: "trim_left (t @ replicate b (CHR '' '')) = t @ replicate b (CHR '' '')"
    by (simp add: trim_left.simps)
  have "space_width_end t = 0" by (rule space_width_end_other [OF assms(1) assms(3)])
  then have r: "trim_right t = t" by (simp add: trim_right.simps)
  show ?thesis by (simp add: TrimSpace_def trim_left_blanks l trim_right_blanks r)
qed

lemma header_int_decimal:
  assumes "- (2 ^ 63) \<le> i" and "i < 2 ^ 63"
  shows "header_int (replicate a (CHR '' '') @ Itoa i @ replicate b (CHR '' '')) = i"
    and "header_int (replicate a (CHR '' '') @ Itoa i @ replicate b (CHR '' '') @
                     CHR '','' # rest) = i"
proof -
  let ?t = "replicate a (CHR '' '') @ Itoa i @ replicate b (CHR '' '')"
  have all: "\<forall>x\<in>set ?t. x \<noteq> CHR '',''" using Itoa_ends [of i] by auto
  then have one: "takeWhile (\<lambda>c. c \<noteq> CHR '','') ?t = ?t"
    by (simp only: takeWhile_eq_all_conv)
  have "takeWhile (\<lambda>c. c \<noteq> CHR '','') (?t @ CHR '','' # rest) =
          ?t @ takeWhile (\<lambda>c. c \<noteq> CHR '','') (CHR '','' # rest)"
    by (rule takeWhile_append2) (use all in blast)
  then have "takeWhile (\<lambda>c. c \<noteq> CHR '','') (?t @ CHR '','' # rest) = ?t"
    by simp
  then have two: "takeWhile (\<lambda>c. c \<noteq> CHR '','')
      (replicate a (CHR '' '') @ Itoa i @ replicate b (CHR '' '') @ CHR '','' # rest) = ?t"
    by simp
  have trim: "TrimSpace ?t = Itoa i"
    using Itoa_ends [of i] by (simp add: TrimSpace_padded)
  show "header_int ?t = i"
    by (simp only: header_int_def one trim Atoi_Itoa [OF assms]) simp
  show "header_int (replicate a (CHR '' '') @ Itoa i @ replicate b (CHR '' '') @
                     CHR '','' # rest) = i"
    by (simp only: header_int_def two trim Atoi_Itoa [OF assms]) simp
qed

section \<open>Claims\<close>

text \<open>
  Claim C1, as amended. With \<open>maxRetries = N\<close>, a context that is not done in any of
  the waits between the attempts and a request that could be created (\<open>json.Marshal\<close>
  and \<open>NewRequestWithContext\<close> succeed): when every call of the transport fails or
  answers with a status of 500 or more, \<open>makeRequest\<close> makes exactly \<open>N + 1\<close> attempts
  and returns the transport error of the last attempt, or else the \<open>APIError\<close> of its
  response, and so does \<open>WebSearch\<close> on a query that passes its checks; and an attempt
  \<open>k\<close> in which the transport succeeds with a status below 500 is the last one, so
  that \<open>k + 1\<close> attempts are made.
\<close>

theorem makeRequest_attempts:
  assumes N: "MaxRetries (config c) = int N"
    and waits: "\<forall>i<N. \<not> Done_first ctx i"
  shows
    "((\<forall>e. body \<noteq> Some (Inl e)) \<and> NewRequestWithContext lib meth url = None \<and>
      (\<forall>i\<le>N. retriable (http c i (new_request c meth url body))) \<longrightarrow>
        attempts (makeRequest lib c ctx meth url body want) = N + 1 \<and>
        ret (makeRequest lib c ctx meth url body want) =
          Returns (Inl (final_error (http c N (new_request c meth url body))))) \<and>
     ((\<forall>e. body \<noteq> Some (Inl e)) \<and> NewRequestWithContext lib meth url = None \<and>
      k \<le> N \<and> (\<forall>i<k. retriable (http c i (new_request c meth url body))) \<and>
      http c k (new_request c meth url body) = DoOk r \<and> StatusCode r < 500 \<longrightarrow>
        attempts (makeRequest lib c ctx meth url body want) = k + 1) \<and>
     (valid_query q \<and> (\<forall>u. NewRequestWithContext lib MethodGet u = None) \<and>
      (\<forall>i\<le>N. \<forall>req. retriable (http c i req)) \<longrightarrow>
        attempts (WebSearch lib c ctx q params) = N + 1 \<and>
        (\<exists>req. ret (WebSearch lib c ctx q params) =
                 Returns (Inl (final_error (http c N req)))))"
proof (intro conjI impI)
  assume a: "(\<forall>e. body \<noteq> Some (Inl e)) \<and> NewRequestWithContext lib meth url = None \<and>
      (\<forall>i\<le>N. retriable (http c i (new_request c meth url body)))"
  have m: "makeRequest lib c ctx meth url body want =
           \<lparr>attempts = N + 1, requestURL = Some url, parsed = None,
            ret = Returns (Inl (final_error (http c N (new_request c meth url body))))\<rparr>"
    by (rule makeRequest_exhaust) (use N waits a in auto)
  show "attempts (makeRequest lib c ctx meth url body want) = N + 1"
    by (simp add: m)
  show "ret (makeRequest lib c ctx meth url body want) =
          Returns (Inl (final_error (http c N (new_request c meth url body))))"
    by (simp add: m)
next
  assume a: "(\<forall>e. body \<noteq> Some (Inl e)) \<and> NewRequestWithContext lib meth url = None \<and>
      k \<le> N \<and> (\<forall>i<k. retriable (http c i (new_request c meth url body))) \<and>
      http c k (new_request c meth url body) = DoOk r \<and> StatusCode r < 500"
  have "retry_loop c ctx (new_request c meth url body) 0 None None 0 =
           (Fell (Some r) None, Suc k)"
    by (rule makeRequest_stops [where N = N and lib = lib]) (use N waits a in auto)
  then show "attempts (makeRequest lib c ctx meth url body want) = k + 1"
    using makeRequest_created(1) [of body lib meth url c ctx _ "Suc k" want] a by simp
next
  assume a: "valid_query q \<and> (\<forall>u. NewRequestWithContext lib MethodGet u = None) \<and>
      (\<forall>i\<le>N. \<forall>req. retriable (http c i req))"
  then have "attempts (WebSearch lib c ctx q params) = N + 1 \<and>
         (\<exists>req. ret (WebSearch lib c ctx q params) = Returns (Inl (final_error (http c N req))))"
    using WebSearch_exhaust [of q c N lib ctx params] N waits by blast
  then show "attempts (WebSearch lib c ctx q params) = N + 1"
    and "\<exists>req. ret (WebSearch lib c ctx q params) = Returns (Inl (final_error (http c N req)))"
    by blast+
qed

text \<open>
  The theorem at work: a server that always answers 503 and two retries give three
  attempts and a server error; a server that answers 503 twice and then 200 gives
  three attempts.
\<close>

theorem makeRequest_attempts_witness:
  "attempts (makeRequest example_lib (example_client always_503 BaseURL 2) background
               MethodGet ''https://api.search.brave.com/res/v1/web/search?q=go'' None True) = 3 \<and>
   ret (makeRequest example_lib (example_client always_503 BaseURL 2) background
          MethodGet ''https://api.search.brave.com/res/v1/web/search?q=go'' None True) =
     Returns (Inl (APIError 503 ''503 Service Unavailable'' (Some (Sentinel ErrServerError)))) \<and>
   attempts (makeRequest example_lib (example_client fails_twice BaseURL 2) background
               MethodGet ''https://api.search.brave.com/res/v1/web/search?q=go'' None True) = 3 \<and>
   attempts (WebSearch example_lib (example_client always_503 BaseURL 2) background
               ''go programming'' None) = 3"
proof -
  let ?u = "''https://api.search.brave.com/res/v1/web/search?q=go''"
  have N: "MaxRetries (config (example_client h BaseURL 2)) = int 2" for h
    by (simp add: example_MaxRetries)
  have w: "\<forall>i<2. \<not> Done_first background i" by (simp add: background_waits)
  have q: "valid_query ''go programming''" by (rule short_query_valid) simp_all
  have f: "final_error (always_503 2 req) =
             APIError 503 ''503 Service Unavailable'' (Some (Sentinel ErrServerError))" for req
    by (simp add: final_error_def always_503_def example_response_def NewHTTPError_def
        StatusUnauthorized_def StatusForbidden_def StatusNotFound_def StatusTooManyRequests_def)
  have t: "\<forall>i<2. retriable (fails_twice i req)" for req
    by (simp add: retriable_def fails_twice_def example_response_def)
  have t2: "fails_twice 2 req = DoOk (example_response 200 ''200 OK'')" for req
    by (simp add: fails_twice_def)
  note A = makeRequest_attempts [where c = "example_client always_503 BaseURL 2" and N = 2
      and ctx = background and body = None and lib = example_lib and meth = MethodGet
      and url = ?u and k = 2 and r = "example_response 200 ''200 OK''"
      and q = "''go programming''" and want = True and params = None, OF N w]
  note B = makeRequest_attempts [where c = "example_client fails_twice BaseURL 2" and N = 2
      and ctx = background and body = None and lib = example_lib and meth = MethodGet
      and url = ?u and k = 2 and r = "example_response 200 ''200 OK''"
      and q = "''go programming''" and want = True and params = None, OF N w]
  show ?thesis
    using A B q t t2
    by (simp add: example_http example_new retriable_503 f example_response_def)
qed

text \<open>
  Claim C1 as it is stated fails: the transport always answers 503 and two retries are
  configured, but the context is done in the first wait, so one attempt is made and
  the error of the context is returned; and when the request cannot be created, no
  attempt is made at all.
\<close>

theorem makeRequest_attempts_counterexample:
  "attempts (makeRequest example_lib (example_client always_503 BaseURL 2) cancelled
               MethodGet ''https://api.search.brave.com/res/v1/web/search?q=go'' None True) = 1 \<and>
   ret (makeRequest example_lib (example_client always_503 BaseURL 2) cancelled
          MethodGet ''https://api.search.brave.com/res/v1/web/search?q=go'' None True) =
     Returns (Inl (Foreign ''context canceled'' None)) \<and>
   attempts (makeRequest strict_lib (example_client always_503 ''http://bad host'' 2) background
               MethodGet ''http://bad host/web/search?q=go'' None True) = 0"
proof -
  let ?c = "example_client always_503 BaseURL 2"
  let ?u = "''https://api.search.brave.com/res/v1/web/search?q=go''"
  have "retry_loop ?c cancelled (new_request ?c MethodGet ?u None) 0 None None 0 =
          (Returned (ctx_Err cancelled), Suc 0)"
    by (rule retry_loop_cancel)
       (simp_all add: example_MaxRetries example_http retriable_503 cancelled_def)
  then have "makeRequest example_lib ?c cancelled MethodGet ?u None True =
          \<lparr>attempts = Suc 0, requestURL = Some ?u, parsed = None,
           ret = Returns (Inl (ctx_Err cancelled))\<rparr>"
    using makeRequest_created(3) [of None example_lib MethodGet ?u ?c cancelled _ "Suc 0"]
    by (simp add: example_new)
  moreover have "attempts (makeRequest strict_lib (example_client always_503 ''http://bad host'' 2)
               background MethodGet ''http://bad host/web/search?q=go'' None True) = 0"
    by (simp add: makeRequest_def strict_lib_def example_lib_def)
  ultimately show ?thesis by (simp add: cancelled_def)
qed

text \<open>
  Claim C2. Whatever the parameters and the context, \<open>WebSearch\<close> on the empty
  query returns \<open>ErrEmptyQuery\<close>, and on a query of more than 400 bytes, of more than
  400 characters (however the bytes are grouped into characters, each of one byte at
  least) or of more than 50 white-space separated tokens it returns
  \<open>ErrQueryTooLong\<close>; the empty query is looked for first, and in both cases the
  transport is never called and no request is made.
\<close>

theorem WebSearch_validation:
  "WebSearch lib c ctx [] params =
     \<lparr>attempts = 0, requestURL = None, parsed = None,
      ret = Returns (Inl (Sentinel ErrEmptyQuery))\<rparr> \<and>
   (400 < length q \<or> (\<exists>cs. concat cs = q \<and> [] \<notin> set cs \<and> 400 < length cs) \<or>
    50 < length (Fields q) \<longrightarrow>
      WebSearch lib c ctx q params =
        \<lparr>attempts = 0, requestURL = None, parsed = None,
         ret = Returns (Inl (Sentinel ErrQueryTooLong))\<rparr>)"
proof (intro conjI impI)
  show "WebSearch lib c ctx [] params =
     \<lparr>attempts = 0, requestURL = None, parsed = None,
      ret = Returns (Inl (Sentinel ErrEmptyQuery))\<rparr>"
    by (simp add: WebSearch_def)
next
  assume a: "400 < length q \<or> (\<exists>cs. concat cs = q \<and> [] \<notin> set cs \<and> 400 < length cs) \<or>
    50 < length (Fields q)"
  have long: "400 < length q \<or> 50 < length (Fields q)"
    using a concat_length_ge by fastforce
  then have "q \<noteq> []" by (auto simp: Fields_Nil)
  with long show "WebSearch lib c ctx q params =
        \<lparr>attempts = 0, requestURL = None, parsed = None,
         ret = Returns (Inl (Sentinel ErrQueryTooLong))\<rparr>"
    by (simp add: WebSearch_def)
qed

text \<open>
  The empty query, a query of 401 letters, and a query of 51 tokens in 102 bytes.
\<close>

theorem WebSearch_validation_witness:
  "WebSearch example_lib (example_client always_503 BaseURL 2) background [] None =
     \<lparr>attempts = 0, requestURL = None, parsed = None,
      ret = Returns (Inl (Sentinel ErrEmptyQuery))\<rparr> \<and>
   WebSearch example_lib (example_client always_503 BaseURL 2) background
       (replicate 401 (CHR ''a'')) None =
     \<lparr>attempts = 0, requestURL = None, parsed = None,
      ret = Returns (Inl (Sentinel ErrQueryTooLong))\<rparr> \<and>
   length (concat (replicate 51 ''a '')) = 102 \<and>
   WebSearch example_lib (example_client always_503 BaseURL 2) background
       (concat (replicate 51 ''a '')) None =
     \<lparr>attempts = 0, requestURL = None, parsed = None,
      ret = Returns (Inl (Sentinel ErrQueryTooLong))\<rparr>"
proof -
  let ?c = "example_client always_503 BaseURL 2"
  note A = WebSearch_validation [where lib = example_lib and c = ?c and ctx = background
      and params = None and q = "replicate 401 (CHR ''a'')"]
  note B = WebSearch_validation [where lib = example_lib and c = ?c and ctx = background
      and params = None and q = "concat (replicate 51 ''a '')"]
  have f: "length (Fields (concat (replicate 51 ''a ''))) = 51"
    by (simp add: Fields_def fields_from_tokens)
  have "length (concat (replicate n ''a '')) = 2 * n" for n
    by (induction n) simp_all
  then have l: "length (concat (replicate 51 ''a '')) = 102"
    by simp
  show ?thesis using A B f l by simp
qed

text \<open>
  Claim C3, as amended. \<open>buildRequestURL\<close> adds a slash when the base URL does not
  end with one and the endpoint does not start with one, and otherwise puts the two
  together as they are. So there is exactly one slash between the base URL and the
  endpoint unless the base URL ends with a slash and the endpoint starts with one;
  then both slashes are kept and there are two.
\<close>

theorem buildRequestURL_separator:
  "(\<not> (HasSuffix (BaseURL_of (config c)) ''/'' \<and> HasPrefix endpoint ''/'') \<longrightarrow>
      buildRequestURL c endpoint params =
        Inr (trim_slash_end (BaseURL_of (config c)) @ ''/'' @ trim_slash_start endpoint @
             ''?'' @ Join (query_items params) ''&'')) \<and>
   (HasSuffix (BaseURL_of (config c)) ''/'' \<and> HasPrefix endpoint ''/'' \<longrightarrow>
      buildRequestURL c endpoint params =
        Inr (trim_slash_end (BaseURL_of (config c)) @ ''//'' @ trim_slash_start endpoint @
             ''?'' @ Join (query_items params) ''&''))"
  using request_path_cases [of c endpoint] buildRequestURL_closed [of c endpoint params]
  by (auto simp: request_path_def)


text \<open>
  One slash when the endpoint brings it, when the base URL brings it and when
  neither does.
\<close>

theorem buildRequestURL_separator_witness:
  "buildRequestURL (example_client always_503 ''https://api.example.com/v1'' 2) ''/web/search''
     zero_WebSearchParams =
     Inr ''https://api.example.com/v1/web/search?spellcheck=false&text_decorations=false'' \<and>
   buildRequestURL (example_client always_503 ''https://api.example.com/v1/'' 2) ''web/search''
     zero_WebSearchParams =
     Inr ''https://api.example.com/v1/web/search?spellcheck=false&text_decorations=false'' \<and>
   buildRequestURL (example_client always_503 ''https://api.example.com/v1'' 2) ''web/search''
     zero_WebSearchParams =
     Inr ''https://api.example.com/v1/web/search?spellcheck=false&text_decorations=false''"
proof -
  note A = buildRequestURL_separator [where c = "example_client always_503 ''https://api.example.com/v1'' 2"
      and endpoint = "''/web/search''" and params = zero_WebSearchParams, THEN conjunct1]
  note B = buildRequestURL_separator [where c = "example_client always_503 ''https://api.example.com/v1/'' 2"
      and endpoint = "''web/search''" and params = zero_WebSearchParams, THEN conjunct1]
  note C = buildRequestURL_separator [where c = "example_client always_503 ''https://api.example.com/v1'' 2"
      and endpoint = "''web/search''" and params = zero_WebSearchParams, THEN conjunct1]
  show ?thesis
    using A B C
    by (simp add: example_BaseURL zero_items HasSuffix_def HasPrefix_def trim_slash_end_def
        trim_slash_start_def)
qed

text \<open>
  Claim C3 as it is stated fails: a base URL that ends with a slash and the endpoint
  of the web search, which starts with one, give a URL with two slashes between them.
\<close>

theorem buildRequestURL_separator_counterexample:
  "buildRequestURL (example_client always_503 ''https://api.example.com/v1/'' 2) WebSearchEndpoint
     zero_WebSearchParams =
     Inr ''https://api.example.com/v1//web/search?spellcheck=false&text_decorations=false''"
  by (simp add: buildRequestURL_closed example_BaseURL zero_items HasSuffix_def HasPrefix_def
      WebSearchEndpoint_def)

text \<open>
  Claim C4. For every value of the parameters, the query string that
  \<open>buildRequestURL\<close> writes after the question mark is made of the items of
  \<open>query_items\<close>, joined by \<open>&\<close> and recovered by splitting at \<open>&\<close>: \<open>spellcheck\<close> and
  \<open>text_decorations\<close> are always there, with the value \<open>true\<close> or \<open>false\<close>;
  \<open>extra_snippets=true\<close> and \<open>summary=true\<close> are there exactly when the flag is true;
  a string field is there exactly when it is not empty, \<open>count\<close> and \<open>offset\<close> exactly
  when positive; and each item is written under its wire name (\<open>q\<close>, \<open>country\<close>,
  \<open>search_lang\<close>, \<open>ui_lang\<close>, \<open>count\<close>, \<open>offset\<close>, \<open>safesearch\<close>, \<open>freshness\<close>,
  \<open>result_filter\<close>, \<open>goggles\<close>, \<open>units\<close>) with its value query-escaped.
\<close>

theorem buildRequestURL_query_string:
  "buildRequestURL c endpoint params =
     Inr (request_path c endpoint @ ''?'' @ Join (query_items params) ''&'') \<and>
   Split (Join (query_items params) ''&'') (CHR ''&'') = query_items params"
  by (simp add: buildRequestURL_closed Split_query request_path_def)

text \<open>
  The parameters of the test, where the freshness of a week is \<open>freshness=pw\<close>, and
  the zero value of the parameters, which leaves the two flags that are always written.
\<close>

theorem buildRequestURL_query_string_witness:
  "buildRequestURL (example_client always_503 BaseURL 2) WebSearchEndpoint all_set =
     Inr (''https://api.search.brave.com/res/v1/web/search?'' @
          ''count=10&country=JP&extra_snippets=true&freshness=pw&goggles=custom-goggle'' @
          ''&offset=2&q=test+query&result_filter=news&safesearch=strict&search_lang=ja'' @
          ''&spellcheck=false&summary=true&text_decorations=true&ui_lang=ja-JP&units=metric'') \<and>
   buildRequestURL (example_client always_503 BaseURL 2) WebSearchEndpoint zero_WebSearchParams =
     Inr ''https://api.search.brave.com/res/v1/web/search?spellcheck=false&text_decorations=false''"
  using buildRequestURL_query_string [of "example_client always_503 BaseURL 2" WebSearchEndpoint all_set]
    buildRequestURL_query_string [of "example_client always_503 BaseURL 2" WebSearchEndpoint
      zero_WebSearchParams]
  by (simp add: example_path query_items_def all_set_def zero_WebSearchParams_def opt_def
      Itoa_examples QueryEscape_examples SafeSearchStrict_def FreshnessWeek_def
      ResultFilterNews_def UnitMetric_def)

text \<open>
  Claim C5, as amended. The rate-limit headers are read from the final response
  exactly when its status is 200: a response that ends the retry loop (status below
  500) has its headers parsed if the status is 200 and not otherwise, and when the
  retries are used up nothing is parsed.
\<close>

theorem rate_limit_extraction:
  "(MaxRetries (config c) = int N \<and> k \<le> N \<and> (\<forall>e. body \<noteq> Some (Inl e)) \<and>
    NewRequestWithContext lib meth url = None \<and>
    (\<forall>i<k. retriable (http c i (new_request c meth url body))) \<and>
    (\<forall>i<k. \<not> Done_first ctx i) \<and>
    http c k (new_request c meth url body) = DoOk resp \<and> StatusCode resp < 500 \<longrightarrow>
      parsed (makeRequest lib c ctx meth url body want) =
        (if StatusCode resp = StatusOK then Some (parseRateLimitHeaders resp) else None)) \<and>
   (MaxRetries (config c) = int N \<and> (\<forall>e. body \<noteq> Some (Inl e)) \<and>
    NewRequestWithContext lib meth url = None \<and>
    (\<forall>i\<le>N. retriable (http c i (new_request c meth url body))) \<and>
    (\<forall>i<N. \<not> Done_first ctx i) \<longrightarrow>
      parsed (makeRequest lib c ctx meth url body want) = None)"
proof (intro conjI impI)
  assume a: "MaxRetries (config c) = int N \<and> k \<le> N \<and> (\<forall>e. body \<noteq> Some (Inl e)) \<and>
    NewRequestWithContext lib meth url = None \<and>
    (\<forall>i<k. retriable (http c i (new_request c meth url body))) \<and>
    (\<forall>i<k. \<not> Done_first ctx i) \<and>
    http c k (new_request c meth url body) = DoOk resp \<and> StatusCode resp < 500"
  show "parsed (makeRequest lib c ctx meth url body want) =
        (if StatusCode resp = StatusOK then Some (parseRateLimitHeaders resp) else None)"
    by (rule makeRequest_final(2) [where N = N and k = k]) (use a in auto)
next
  assume a: "MaxRetries (config c) = int N \<and> (\<forall>e. body \<noteq> Some (Inl e)) \<and>
    NewRequestWithContext lib meth url = None \<and>
    (\<forall>i\<le>N. retriable (http c i (new_request c meth url body))) \<and>
    (\<forall>i<N. \<not> Done_first ctx i)"
  have "makeRequest lib c ctx meth url body want =
           \<lparr>attempts = N + 1, requestURL = Some url, parsed = None,
            ret = Returns (Inl (final_error (http c N (new_request c meth url body))))\<rparr>"
    by (rule makeRequest_exhaust) (use a in auto)
  then show "parsed (makeRequest lib c ctx meth url body want) = None" by simp
qed

text \<open>
  A 200 with the headers of the test has them parsed; after three answers of 503
  nothing is parsed.
\<close>

theorem rate_limit_extraction_witness:
  "parsed (makeRequest example_lib
             (example_client (answers (rate_limited_response 200 ''200 OK'')) BaseURL 2)
             background MethodGet ''https://api.search.brave.com/res/v1/web/search?q=go''
             None True) =
     Some \<lparr>Limit = 10, Remaining = 9, Reset = 1\<rparr> \<and>
   parsed (makeRequest example_lib (example_client always_503 BaseURL 2)
             background MethodGet ''https://api.search.brave.com/res/v1/web/search?q=go''
             None True) = None"
proof -
  let ?u = "''https://api.search.brave.com/res/v1/web/search?q=go''"
  let ?r = "rate_limited_response 200 ''200 OK''"
  note A = rate_limit_extraction [where c = "example_client (answers ?r) BaseURL 2" and N = 2
      and k = 0 and body = None and lib = example_lib and meth = MethodGet and url = ?u
      and ctx = background and resp = ?r and want = True, THEN conjunct1]
  note B = rate_limit_extraction [where c = "example_client always_503 BaseURL 2" and N = 2
      and k = 0 and body = None and lib = example_lib and meth = MethodGet and url = ?u
      and ctx = background and resp = ?r and want = True, THEN conjunct2]
  have "parsed (makeRequest example_lib (example_client (answers ?r) BaseURL 2)
             background MethodGet ?u None True) = Some \<lparr>Limit = 10, Remaining = 9, Reset = 1\<rparr>"
    using A by (simp add: example_MaxRetries example_http example_new answers_def
        rate_limited_fields StatusOK_def)
  moreover have "parsed (makeRequest example_lib (example_client always_503 BaseURL 2)
             background MethodGet ?u None True) = None"
    using B by (simp add: example_MaxRetries example_http example_new retriable_503
        background_waits)
  ultimately show ?thesis by blast
qed

text \<open>
  Claim C5 as it is stated fails: the final response, a 429 that carries the three
  rate-limit headers, is received, and its headers are not parsed.
\<close>

theorem rate_limit_extraction_counterexample:
  "parsed (makeRequest example_lib
             (example_client (answers (rate_limited_response 429 ''429 Too Many Requests''))
                BaseURL 2)
             background MethodGet ''https://api.search.brave.com/res/v1/web/search?q=go''
             None True) = None \<and>
   parseRateLimitHeaders (rate_limited_response 429 ''429 Too Many Requests'') =
     \<lparr>Limit = 10, Remaining = 9, Reset = 1\<rparr>"
proof -
  let ?u = "''https://api.search.brave.com/res/v1/web/search?q=go''"
  let ?r = "rate_limited_response 429 ''429 Too Many Requests''"
  let ?c = "example_client (answers ?r) BaseURL 2"
  have "retry_loop ?c background (new_request ?c MethodGet ?u None) 0 None None 0 =
          (Fell (Some ?r) None, Suc 0)"
    by (rule retry_loop_break)
       (simp_all add: example_MaxRetries example_http answers_def rate_limited_fields)
  then have "parsed (makeRequest example_lib ?c background MethodGet ?u None True) = None"
    by (simp add: makeRequest_def example_new rate_limited_fields StatusOK_def)
  then show ?thesis by (simp add: rate_limited_fields)
qed

text \<open>
  Claim C6. For every response, the limit, remaining and reset of the rate limit that
  \<open>parseRateLimitHeaders\<close> returns are each the integer read from the first
  comma-delimited piece, white space trimmed, of its \<open>X-RateLimit-*\<close> header; a piece
  that is not an integer leaves the field at zero, and so does an absent header.
  The function returns a rate limit and nothing else: there is no error. The
  integer read is the one written: a value that is the decimal representation of a
  64-bit integer, with any number of spaces around it, alone or followed by a comma
  and anything else, stands for that integer.
\<close>

theorem parseRateLimitHeaders_first_token:
  "Limit (parseRateLimitHeaders resp) =
     header_int (Header_Get (Header resp) HeaderRateLimitLimit) \<and>
   Remaining (parseRateLimitHeaders resp) =
     header_int (Header_Get (Header resp) HeaderRateLimitRemaining) \<and>
   Reset (parseRateLimitHeaders resp) =
     header_int (Header_Get (Header resp) HeaderRateLimitReset) \<and>
   (Header resp (CanonicalMIMEHeaderKey HeaderRateLimitLimit) = None \<longrightarrow>
      Limit (parseRateLimitHeaders resp) = 0) \<and>
   (Header resp (CanonicalMIMEHeaderKey HeaderRateLimitRemaining) = None \<longrightarrow>
      Remaining (parseRateLimitHeaders resp) = 0) \<and>
   (Header resp (CanonicalMIMEHeaderKey HeaderRateLimitReset) = None \<longrightarrow>
      Reset (parseRateLimitHeaders resp) = 0) \<and>
   (- (2 ^ 63) \<le> i \<and> i < 2 ^ 63 \<longrightarrow>
      header_int (replicate a (CHR '' '') @ Itoa i @ replicate b (CHR '' '')) = i \<and>
      header_int (replicate a (CHR '' '') @ Itoa i @ replicate b (CHR '' '') @
                  CHR '','' # rest) = i)"
  by (simp add: parseRateLimitHeaders_fields Header_Get_absent header_int_Nil
      header_int_decimal)

text \<open>
  The headers \<open>10, 15000\<close>, \<open>9, 14999\<close> and \<open>1, 1419704\<close> of the test give the limit
  10, 9 remaining and the reset 1; a response without the headers gives zeros.
\<close>

theorem parseRateLimitHeaders_first_token_witness:
  "parseRateLimitHeaders (rate_limited_response 200 ''200 OK'') =
     \<lparr>Limit = 10, Remaining = 9, Reset = 1\<rparr> \<and>
   parseRateLimitHeaders (example_response 200 ''200 OK'') =
     \<lparr>Limit = 0, Remaining = 0, Reset = 0\<rparr>"
proof -
  have h: "Header_Get (Header (rate_limited_response 200 ''200 OK'')) HeaderRateLimitLimit = ''10, 15000''"
    "Header_Get (Header (rate_limited_response 200 ''200 OK'')) HeaderRateLimitRemaining = ''9, 14999''"
    "Header_Get (Header (rate_limited_response 200 ''200 OK'')) HeaderRateLimitReset = ''1, 1419704''"
    by (simp_all add: rate_limited_response_def Header_Get_def Header_Set_def canonical_keys)
  have e: "Header (example_response 200 ''200 OK'') k = None" for k
    by (simp add: example_response_def)
  show ?thesis
    using parseRateLimitHeaders_first_token [where resp = "rate_limited_response 200 ''200 OK''"
        and i = 10 and a = 0 and b = 0 and rest = "'' 15000''"]
      parseRateLimitHeaders_first_token [where resp = "example_response 200 ''200 OK''"
        and i = 0 and a = 0 and b = 0 and rest = "[]"]
    by (simp add: h e header_int_examples RateLimit.equality)
qed



text \<open>
  Claim C8. \<open>NewClient\<close> refuses the empty API key with \<open>ErrMissingAPIKey\<close> whatever
  the options are, so before any of them is applied. Otherwise the options are
  applied to the draft configuration one after the other in the order given: applying
  a list followed by another is applying the first and then, if no option of it
  failed, the second to the configuration it left. The first option that returns an
  error ends the construction with that error, whatever options come after it; and
  \<open>WithRetries\<close> with a negative count is such an option, with the error
  \<open>ErrInvalidParameters\<close>.
\<close>

theorem NewClient_options_in_order:
  "NewClient new [] options = Inl (Sentinel ErrMissingAPIKey) \<and>
   applyOptions cfg (xs @ ys) =
     (case applyOptions cfg xs of
        (cfg', None) \<Rightarrow> applyOptions cfg' ys
      | (cfg', Some e) \<Rightarrow> (cfg', Some e)) \<and>
   (apiKey \<noteq> [] \<and> applyOptions (default_config apiKey) xs = (cfga, None) \<and>
    option cfga = (cfgb, Some e) \<longrightarrow>
      applyOptions (default_config apiKey) (xs @ option # ys) = (cfgb, Some e) \<and>
      NewClient new apiKey (xs @ option # ys) = Inl e) \<and>
   (apiKey \<noteq> [] \<and> applyOptions (default_config apiKey) xs = (cfga, None) \<longrightarrow>
      (\<exists>h. NewClient new apiKey xs = Inr \<lparr>config = cfga, http = h\<rparr>)) \<and>
   (retries < 0 \<longrightarrow> WithRetries retries cfg = (cfg, Some (Sentinel ErrInvalidParameters))) \<and>
   (0 \<le> retries \<longrightarrow> WithRetries retries cfg = (cfg\<lparr>MaxRetries := retries\<rparr>, None))"
proof (intro conjI impI)
  show "NewClient new [] options = Inl (Sentinel ErrMissingAPIKey)"
    by (simp add: NewClient_def)
next
  show "applyOptions cfg (xs @ ys) =
     (case applyOptions cfg xs of
        (cfg', None) \<Rightarrow> applyOptions cfg' ys
      | (cfg', Some e) \<Rightarrow> (cfg', Some e))"
    by (rule applyOptions_append)
next
  assume a: "apiKey \<noteq> [] \<and> applyOptions (default_config apiKey) xs = (cfga, None) \<and>
    option cfga = (cfgb, Some e)"
  then show ab: "applyOptions (default_config apiKey) (xs @ option # ys) = (cfgb, Some e)"
    by (simp add: applyOptions_append)
  show "NewClient new apiKey (xs @ option # ys) = Inl e"
    using a ab by (simp add: NewClient_config)
next
  assume a: "apiKey \<noteq> [] \<and> applyOptions (default_config apiKey) xs = (cfga, None)"
  then show "\<exists>h. NewClient new apiKey xs = Inr \<lparr>config = cfga, http = h\<rparr>"
    by (simp add: NewClient_config)
qed (simp_all add: WithRetries_def)

text \<open>
  The second of four options has a negative count: its error is returned, and neither
  the failing option after it nor the last one changes the outcome. With two valid
  counts the later one stays.
\<close>

theorem NewClient_options_in_order_witness:
  "NewClient network ''test-api-key''
     [WithRetries 5, WithRetries (- 1), refuses ErrInvalidAPIKey, WithRetries 3] =
     Inl (Sentinel ErrInvalidParameters) \<and>
   applyOptions (default_config ''test-api-key'')
     [WithRetries 5, WithRetries (- 1), refuses ErrInvalidAPIKey, WithRetries 3] =
     ((default_config ''test-api-key'')\<lparr>MaxRetries := 5\<rparr>, Some (Sentinel ErrInvalidParameters)) \<and>
   NewClient network ''test-api-key'' [WithRetries 5, WithRetries 3] =
     Inr \<lparr>config = (default_config ''test-api-key'')\<lparr>MaxRetries := 3\<rparr>, http = always_503\<rparr> \<and>
   NewClient network ''test-api-key'' [WithRetries 3, WithRetries 5] =
     Inr \<lparr>config = (default_config ''test-api-key'')\<lparr>MaxRetries := 5\<rparr>, http = always_503\<rparr>"
proof -
  let ?d = "default_config ''test-api-key''"
  have one: "applyOptions ?d [WithRetries 5] = (?d\<lparr>MaxRetries := 5\<rparr>, None)"
    by (simp add: WithRetries_def)
  have bad: "WithRetries (- 1) (?d\<lparr>MaxRetries := 5\<rparr>) =
               (?d\<lparr>MaxRetries := 5\<rparr>, Some (Sentinel ErrInvalidParameters))"
    by (simp add: WithRetries_def)
  note T = NewClient_options_in_order [where new = network and apiKey = "''test-api-key''"
      and xs = "[WithRetries 5]" and option = "WithRetries (- 1)"
      and ys = "[refuses ErrInvalidAPIKey, WithRetries 3]" and cfga = "?d\<lparr>MaxRetries := 5\<rparr>"
      and cfgb = "?d\<lparr>MaxRetries := 5\<rparr>" and e = "Sentinel ErrInvalidParameters"
      and cfg = ?d and retries = "- 1" and options = "[]",
      THEN conjunct2, THEN conjunct2, THEN conjunct1]
  have "applyOptions ?d ([WithRetries 5] @ WithRetries (- 1) # [refuses ErrInvalidAPIKey, WithRetries 3]) =
          (?d\<lparr>MaxRetries := 5\<rparr>, Some (Sentinel ErrInvalidParameters)) \<and>
        NewClient network ''test-api-key''
          ([WithRetries 5] @ WithRetries (- 1) # [refuses ErrInvalidAPIKey, WithRetries 3]) =
          Inl (Sentinel ErrInvalidParameters)"
    using T one bad by blast
  moreover have "NewClient network ''test-api-key'' [WithRetries 5, WithRetries 3] =
     Inr \<lparr>config = ?d\<lparr>MaxRetries := 3\<rparr>, http = always_503\<rparr>"
    by (simp add: NewClient_config WithRetries_def network_def default_config_def)
  moreover have "NewClient network ''test-api-key'' [WithRetries 3, WithRetries 5] =
     Inr \<lparr>config = ?d\<lparr>MaxRetries := 5\<rparr>, http = always_503\<rparr>"
    by (simp add: NewClient_config WithRetries_def network_def default_config_def)
  ultimately show ?thesis by simp
qed

text \<open>
  Claim C9, as amended. For every query that passes the checks, \<open>WebSearch\<close> with
  \<open>nil\<close> parameters asks for a URL whose query string has \<open>spellcheck=false\<close> and
  \<open>text_decorations=false\<close> and no \<open>offset\<close>; with parameters it writes the two flags
  as the caller left them, so \<open>false\<close> when they are unset, and an \<open>offset\<close> exactly
  when the caller's offset is positive. The defaults fill the country, the two
  languages, the count and the safe-search level and nothing else; the constants
  \<open>DefaultTextDecor\<close> and \<open>DefaultSpellCheck\<close>, both true, reach the parameters only
  through \<open>NewWebSearchParams\<close>.
\<close>

theorem WebSearch_flags_not_defaulted:
  "valid_query q \<longrightarrow>
     requestURL (WebSearch lib c ctx q None) =
       Some (request_path c WebSearchEndpoint @ ''?'' @
             Join ([''count=20''] @
                   opt (DefaultCountry_of (config c) \<noteq> [])
                     (''country='' @ QueryEscape (DefaultCountry_of (config c))) @
                   [''q='' @ QueryEscape q, ''safesearch=moderate''] @
                   opt (DefaultSearchLang_of (config c) \<noteq> [])
                     (''search_lang='' @ QueryEscape (DefaultSearchLang_of (config c))) @
                   [''spellcheck=false'', ''text_decorations=false''] @
                   opt (DefaultUILang_of (config c) \<noteq> [])
                     (''ui_lang='' @ QueryEscape (DefaultUILang_of (config c)))) ''&'') \<and>
     requestURL (WebSearch lib c ctx q (Some p)) =
       Some (request_path c WebSearchEndpoint @ ''?'' @
             Join (query_items (with_defaults c q (Some p))) ''&'') \<and>
     (''spellcheck='' @ (if Spellcheck p then ''true'' else ''false''))
        \<in> set (query_items (with_defaults c q (Some p))) \<and>
     (''text_decorations='' @ (if TextDecorations p then ''true'' else ''false''))
        \<in> set (query_items (with_defaults c q (Some p))) \<and>
     ((\<exists>x\<in>set (query_items (with_defaults c q (Some p))). HasPrefix x ''offset='')
        \<longleftrightarrow> 0 < Offset p) \<and>
     TextDecorations NewWebSearchParams \<and> Spellcheck NewWebSearchParams"
proof (intro impI conjI)
  assume v: "valid_query q"
  then have q: "q \<noteq> []" by (simp add: valid_query_def)
  show "requestURL (WebSearch lib c ctx q None) =
       Some (request_path c WebSearchEndpoint @ ''?'' @
             Join ([''count=20''] @
                   opt (DefaultCountry_of (config c) \<noteq> [])
                     (''country='' @ QueryEscape (DefaultCountry_of (config c))) @
                   [''q='' @ QueryEscape q, ''safesearch=moderate''] @
                   opt (DefaultSearchLang_of (config c) \<noteq> [])
                     (''search_lang='' @ QueryEscape (DefaultSearchLang_of (config c))) @
                   [''spellcheck=false'', ''text_decorations=false''] @
                   opt (DefaultUILang_of (config c) \<noteq> [])
                     (''ui_lang='' @ QueryEscape (DefaultUILang_of (config c)))) ''&'')"
    using WebSearch_url [OF v, of lib c ctx None] items_of_nil [OF q, of c] by simp
  show "requestURL (WebSearch lib c ctx q (Some p)) =
       Some (request_path c WebSearchEndpoint @ ''?'' @
             Join (query_items (with_defaults c q (Some p))) ''&'')"
    by (rule WebSearch_url [OF v])
  show "(''spellcheck='' @ (if Spellcheck p then ''true'' else ''false''))
        \<in> set (query_items (with_defaults c q (Some p)))"
    using flag_items(1) [of "with_defaults c q (Some p)"] by (simp only: flags_kept)
  show "(''text_decorations='' @ (if TextDecorations p then ''true'' else ''false''))
        \<in> set (query_items (with_defaults c q (Some p)))"
    using flag_items(2) [of "with_defaults c q (Some p)"] by (simp only: flags_kept)
  show "(\<exists>x\<in>set (query_items (with_defaults c q (Some p))). HasPrefix x ''offset='')
        \<longleftrightarrow> 0 < Offset p"
    by (simp only: offset_item flags_kept)
  show "TextDecorations NewWebSearchParams"
    by (simp add: NewWebSearchParams_def DefaultTextDecor_def)
  show "Spellcheck NewWebSearchParams"
    by (simp add: NewWebSearchParams_def DefaultSpellCheck_def)
qed


text \<open>The URL of a search for \<open>go programming\<close> with \<open>nil\<close> parameters.\<close>

theorem WebSearch_flags_not_defaulted_witness:
  "requestURL (WebSearch example_lib (example_client always_503 BaseURL 2) background
                 ''go programming'' None) =
     Some (''https://api.search.brave.com/res/v1/web/search?'' @
           ''count=20&country=US&q=go+programming&safesearch=moderate&search_lang=en'' @
           ''&spellcheck=false&text_decorations=false&ui_lang=en-US'')"
proof -
  have q: "valid_query ''go programming''" by (rule short_query_valid) simp_all
  note T = WebSearch_flags_not_defaulted [where q = "''go programming''" and lib = example_lib
      and c = "example_client always_503 BaseURL 2" and ctx = background
      and p = zero_WebSearchParams, THEN mp, OF q, THEN conjunct1]
  show ?thesis
    using T by (simp add: example_path example_defaults QueryEscape_more opt_def)
qed

text \<open>
  Claim C9 as it is stated fails: parameters with both flags unset and an offset of 5
  give a query string with \<open>offset=5\<close> in it.
\<close>

theorem WebSearch_flags_not_defaulted_counterexample:
  "\<not> TextDecorations (zero_WebSearchParams\<lparr>Offset := 5\<rparr>) \<and>
   \<not> Spellcheck (zero_WebSearchParams\<lparr>Offset := 5\<rparr>) \<and>
   requestURL (WebSearch example_lib (example_client always_503 BaseURL 2) background
                 ''go'' (Some (zero_WebSearchParams\<lparr>Offset := 5\<rparr>))) =
     Some (''https://api.search.brave.com/res/v1/web/search?'' @
           ''count=20&country=US&offset=5&q=go&safesearch=moderate&search_lang=en'' @
           ''&spellcheck=false&text_decorations=false&ui_lang=en-US'')"
proof -
  have q: "valid_query ''go''" by (rule short_query_valid) simp_all
  have five: "Itoa 5 = ''5''" by (simp add: Itoa_def digits.simps digit_char_def)
  have "query_items (with_defaults (example_client always_503 BaseURL 2) ''go''
          (Some (zero_WebSearchParams\<lparr>Offset := 5\<rparr>))) =
        [''count=20'', ''country=US'', ''offset=5'', ''q=go'', ''safesearch=moderate'',
         ''search_lang=en'', ''spellcheck=false'', ''text_decorations=false'', ''ui_lang=en-US'']"
    by (simp add: query_items_def with_defaults_def zero_WebSearchParams_def opt_def
        example_defaults DefaultCount_def DefaultSafeSearch_def SafeSearchModerate_def
        Itoa_examples five QueryEscape_more)
  then show ?thesis
    using WebSearch_url [OF q, of example_lib "example_client always_503 BaseURL 2" background
        "Some (zero_WebSearchParams\<lparr>Offset := 5\<rparr>)"]
    by (simp add: example_path zero_WebSearchParams_def)
qed

text \<open>
  Claim C10. The accessors of a response are total on the degenerate inputs. For the
  \<open>nil\<close> response and for a response whose \<open>Web\<close> section is \<open>nil\<close>, \<open>GetWebResults\<close>
  returns the empty slice, which is not \<open>nil\<close>, \<open>GetResultCount\<close> returns 0,
  \<open>GetFirstResult\<close> returns \<open>nil\<close> and \<open>IsWebResultEmpty\<close> returns true, as it does for
  a \<open>Web\<close> section whose results are empty or \<open>nil\<close>; \<open>HasMoreResults\<close> returns false
  when the response or its \<open>Query\<close> section is \<open>nil\<close>.
\<close>

theorem accessors_total:
  "GetWebResults None = Some [] \<and>
   GetWebResults (Some (r\<lparr>Web := None\<rparr>)) = Some [] \<and>
   GetResultCount None = 0 \<and>
   GetResultCount (Some (r\<lparr>Web := None\<rparr>)) = 0 \<and>
   GetFirstResult None = None \<and>
   GetFirstResult (Some (r\<lparr>Web := None\<rparr>)) = None \<and>
   IsWebResultEmpty None \<and>
   IsWebResultEmpty (Some (r\<lparr>Web := None\<rparr>)) \<and>
   IsWebResultEmpty (Some (r\<lparr>Web := Some (w\<lparr>Results := Some []\<rparr>)\<rparr>)) \<and>
   IsWebResultEmpty (Some (r\<lparr>Web := Some (w\<lparr>Results := None\<rparr>)\<rparr>)) \<and>
   \<not> HasMoreResults None \<and>
   \<not> HasMoreResults (Some (r\<lparr>WebSearchResponse.Query := None\<rparr>)) \<and>
   (Web r = None \<longrightarrow>
      GetWebResults (Some r) = Some [] \<and> GetResultCount (Some r) = 0 \<and>
      GetFirstResult (Some r) = None \<and> IsWebResultEmpty (Some r)) \<and>
   (WebSearchResponse.Query r = None \<longrightarrow> \<not> HasMoreResults (Some r))"
  by (simp add: GetWebResults_def GetResultCount_def GetFirstResult_def IsWebResultEmpty_def
      HasMoreResults_def len_def)

text \<open>The zero value of a response has neither section.\<close>

theorem accessors_total_witness:
  "GetWebResults (Some zero_WebSearchResponse) = Some [] \<and>
   GetResultCount (Some zero_WebSearchResponse) = 0 \<and>
   GetFirstResult (Some zero_WebSearchResponse) = None \<and>
   IsWebResultEmpty (Some zero_WebSearchResponse) \<and>
   \<not> HasMoreResults (Some zero_WebSearchResponse)"
  using accessors_total [of zero_WebSearchResponse]
  by (simp add: zero_WebSearchResponse_def)

end
